theory Spec2Isabelle
  imports Main "HOL-Library.Sublist"
begin

section \<open>Wire types (client.go)\<close>

definition aiPluginID :: string where
  "aiPluginID = ''mattermost-ai''"

definition mattermostServerID :: string where
  "mattermostServerID = ''mattermost-server''"

record Post =
  Role :: string
  Message :: string
  FileIDs :: "string list"

text \<open>
  \<open>JSONOutputFormat\<close> is a \<^verbatim>\<open>map[string]interface{}\<close>; the values it may hold are
  the type parameter \<open>'a\<close>.
\<close>

record 'a CompletionRequest =
  Posts :: "Post list"
  MaxGeneratedTokens :: int
  JSONOutputFormat :: "(string \<times> 'a) list"
  UserID :: string
  ChannelID :: string

record CompletionResponse =
  Completion :: string

record ErrorResponse =
  Error :: string

record BridgeAgentInfo =
  AgentID :: string
  DisplayName :: string
  Username :: string
  ServiceID :: string
  ServiceType :: string

record BridgeServiceInfo =
  ServiceInfoID :: string
  ServiceInfoName :: string
  ServiceInfoType :: string

record AgentsResponse =
  Agents :: "BridgeAgentInfo list"

record ServicesResponse =
  Services :: "BridgeServiceInfo list"

section \<open>Stream events\<close>

text \<open>
  Modelled from the spec: package \<^verbatim>\<open>llm\<close> (the declaration of \<^verbatim>\<open>TextStreamEvent\<close>,
  \<^verbatim>\<open>EventTypeEnd\<close>, \<^verbatim>\<open>EventTypeError\<close>) is not part of the sources. The spec's
  StreamEvent is a tagged variant \<open>Text(fragment)\<close>, \<open>End\<close>, \<open>Error(cause)\<close>; the code
  builds it as a struct of a \<open>Type\<close> and a \<open>Value\<close>, the value of an error event being
  a Go error (here its message).
\<close>

datatype EventType = EventTypeText | EventTypeEnd | EventTypeError

datatype EventValue = NoValue | TextValue string | ErrorValue string

record TextStreamEvent =
  Type :: EventType
  Value :: EventValue

section \<open>HTTP messages\<close>

text \<open>
  A response body is an \<^verbatim>\<open>io.ReadCloser\<close>: the bytes it delivers, and how reading ends
  after them: \<open>None\<close> is \<^verbatim>\<open>io.EOF\<close>, \<open>Some e\<close> a read error with message \<open>e\<close>.
\<close>

record ReadCloser =
  Bytes :: string
  ReadErr :: "string option"

record Response =
  StatusCode :: int
  Body :: ReadCloser

record Request =
  Method :: string
  Path :: string
  RawQuery :: string
  Header :: "string \<rightharpoonup> string"
  RequestBody :: "string option"

definition Header_Set :: "Request \<Rightarrow> string \<Rightarrow> string \<Rightarrow> Request" where
  "Header_Set req k v = req\<lparr>Header := (Header req)(k \<mapsto> v)\<rparr>"

definition io_ReadAll :: "ReadCloser \<Rightarrow> string + string" where
  "io_ReadAll b = (case ReadErr b of None \<Rightarrow> Inr (Bytes b) | Some e \<Rightarrow> Inl e)"

section \<open>Formatting\<close>

definition digitChar :: "nat \<Rightarrow> char" where
  "digitChar n = ''0123456789'' ! (n mod 10)"

fun natToDec :: "nat \<Rightarrow> string" where
  "natToDec n = (if n < 10 then [digitChar n] else natToDec (n div 10) @ [digitChar n])"

declare natToDec.simps [simp del]

text \<open>The verb \<^verbatim>\<open>%d\<close> of \<^verbatim>\<open>fmt\<close> on an \<^verbatim>\<open>int\<close>.\<close>

definition fmt_d :: "int \<Rightarrow> string" where
  "fmt_d i = (if i < 0 then CHR ''-'' # natToDec (nat (- i)) else natToDec (nat i))"

section \<open>Strings\<close>

definition HasPrefix :: "string \<Rightarrow> string \<Rightarrow> bool" where
  "HasPrefix s p = (take (length p) s = p)"

definition TrimPrefix :: "string \<Rightarrow> string \<Rightarrow> string" where
  "TrimPrefix s p = (if HasPrefix s p then drop (length p) s else s)"

text \<open>\<^verbatim>\<open>strings.Index\<close> for a one-byte separator: the first position, or \<open>-1\<close>.\<close>

fun Index :: "string \<Rightarrow> char \<Rightarrow> int" where
  "Index [] c = - 1"
| "Index (x # xs) c =
     (if x = c then 0 else (let i = Index xs c in if i = - 1 then - 1 else i + 1))"

section \<open>The line scanner (bufio.Scanner with ScanLines)\<close>

definition LF :: char where
  "LF = CHR 0x0A"

definition CR :: char where
  "CR = CHR 0x0D"

definition MaxScanTokenSize :: nat where
  "MaxScanTokenSize = 64 * 1024"

definition dropCR :: "string \<Rightarrow> string" where
  "dropCR data = (if data \<noteq> [] \<and> last data = CR then butlast data else data)"

text \<open>
  One call of \<^verbatim>\<open>scanner.Scan()\<close> on the bytes not yet consumed. A line is cut at the
  first \<open>LF\<close> (a trailing \<open>CR\<close> dropped); the last line needs no \<open>LF\<close>; no bytes left
  means no token. The scanner's buffer holds \<open>MaxScanTokenSize\<close> bytes: a line that
  does not end within them stops the scan with \<^verbatim>\<open>bufio.ErrTooLong\<close>. The end of the
  body (\<^verbatim>\<open>io.EOF\<close> or a read error) is taken to arrive in a read of its own, after
  the last bytes; the tokens of the bytes read so far are still delivered before it.
\<close>

datatype ScanStep = ScanDone | ScanTooLong | ScanToken string string

definition scanStep :: "string \<Rightarrow> ScanStep" where
  "scanStep data =
     (if data = [] then ScanDone
      else (let line = takeWhile (\<lambda>c. c \<noteq> LF) data;
                rest = dropWhile (\<lambda>c. c \<noteq> LF) data
            in if MaxScanTokenSize \<le> length line then ScanTooLong
               else ScanToken (dropCR line) (drop 1 rest)))"

definition ErrTooLong :: string where
  "ErrTooLong = ''bufio.Scanner: token too long''"

section \<open>The stream decoder (the goroutine of doStreamingRequest)\<close>

text \<open>
  What the reader goroutine does, in order: sends on the unbuffered channel
  \<^verbatim>\<open>stream\<close>, and the two deferred calls \<^verbatim>\<open>close(stream)\<close> and
  \<^verbatim>\<open>resp.Body.Close()\<close>.
\<close>

datatype Action = Send TextStreamEvent | CloseStream | CloseBody

definition parseErrorEvent :: "string \<Rightarrow> TextStreamEvent" where
  "parseErrorEvent err =
     \<lparr>Type = EventTypeError, Value = ErrorValue (''error parsing stream event: '' @ err)\<rparr>"

definition readErrorEvent :: "string \<Rightarrow> TextStreamEvent" where
  "readErrorEvent err =
     \<lparr>Type = EventTypeError, Value = ErrorValue (''error reading stream: '' @ err)\<rparr>"

text \<open>
  The deferred calls run in reverse order of their \<^verbatim>\<open>defer\<close> statements, at every
  return of the goroutine: first \<^verbatim>\<open>close(stream)\<close>, then \<^verbatim>\<open>resp.Body.Close()\<close>.
\<close>

definition deferred :: "Action list" where
  "deferred = [CloseStream, CloseBody]"

text \<open>
  The \<^verbatim>\<open>for scanner.Scan()\<close> loop with what follows it. \<open>unmarshal\<close> is
  \<^verbatim>\<open>json.Unmarshal\<close> into a \<^verbatim>\<open>TextStreamEvent\<close>; \<open>data\<close> are the bytes of the body not
  yet scanned and \<open>err\<close> is how the body ends.
\<close>

function readLoop ::
  "(string \<Rightarrow> string + TextStreamEvent) \<Rightarrow> string \<Rightarrow> string option \<Rightarrow> Action list" where
  "readLoop unmarshal data err =
     (case scanStep data of
        ScanDone \<Rightarrow>
          (case err of
             None \<Rightarrow> deferred
           | Some e \<Rightarrow> Send (readErrorEvent e) # deferred)
      | ScanTooLong \<Rightarrow> Send (readErrorEvent ErrTooLong) # deferred
      | ScanToken line rest \<Rightarrow>
          if \<not> HasPrefix line ''data: '' then readLoop unmarshal rest err
          else (let payload = TrimPrefix line ''data: '' in
            if payload = [] then readLoop unmarshal rest err
            else (case unmarshal payload of
                    Inl e \<Rightarrow> Send (parseErrorEvent e) # deferred
                  | Inr event \<Rightarrow>
                      Send event #
                      (if Type event = EventTypeEnd \<or> Type event = EventTypeError
                       then deferred
                       else readLoop unmarshal rest err))))"
  by pat_completeness auto
termination
proof (relation "measure (\<lambda>(unmarshal, data, err). length data)")
  show "wf (measure (\<lambda>(unmarshal, data, err). length data))"
    by simp
next
  fix unmarshal :: "string \<Rightarrow> string + TextStreamEvent"
    and data :: string and err :: "string option" and line rest :: string
  assume "scanStep data = ScanToken line rest"
  then have "data \<noteq> []" and "rest = drop 1 (dropWhile (\<lambda>c. c \<noteq> LF) data)"
    by (auto simp: scanStep_def Let_def split: if_splits)
  then have "length rest < length data"
    using length_dropWhile_le [of "\<lambda>c. c \<noteq> LF" data] by (cases data) auto
  then show "((unmarshal, rest, err), (unmarshal, data, err))
      \<in> measure (\<lambda>(unmarshal, data, err). length data)"
    by simp
  then show "((unmarshal, rest, err), (unmarshal, data, err))
      \<in> measure (\<lambda>(unmarshal, data, err). length data)" .
  then show "((unmarshal, rest, err), (unmarshal, data, err))
      \<in> measure (\<lambda>(unmarshal, data, err). length data)" .
qed

declare readLoop.simps [simp del]

definition streamReader ::
  "(string \<Rightarrow> string + TextStreamEvent) \<Rightarrow> ReadCloser \<Rightarrow> Action list" where
  "streamReader unmarshal body = readLoop unmarshal (Bytes body) (ReadErr body)"

text \<open>
  The consumer side of the unbuffered channel. A send completes only when the consumer
  receives; \<open>executed n\<close> is what the goroutine gets done when the consumer receives
  at most \<open>n\<close> events and then stops reading: at the next send the goroutine blocks for
  good.
\<close>

fun executed :: "nat \<Rightarrow> Action list \<Rightarrow> Action list" where
  "executed n [] = []"
| "executed n (Send e # as) =
     (case n of 0 \<Rightarrow> [] | Suc m \<Rightarrow> Send e # executed m as)"
| "executed n (CloseStream # as) = CloseStream # executed n as"
| "executed n (CloseBody # as) = CloseBody # executed n as"

text \<open>
  A consumer that ranges over the channel until it is closed: the events it receives, or
  \<open>None\<close> when the producer ends without closing the channel (the loop never ends).
\<close>

fun rangeStream :: "Action list \<Rightarrow> TextStreamEvent list option" where
  "rangeStream [] = None"
| "rangeStream (Send e # as) = map_option ((#) e) (rangeStream as)"
| "rangeStream (CloseStream # as) = Some []"
| "rangeStream (CloseBody # as) = rangeStream as"

fun sends :: "Action list \<Rightarrow> TextStreamEvent list" where
  "sends [] = []"
| "sends (Send e # as) = e # sends as"
| "sends (CloseStream # as) = sends as"
| "sends (CloseBody # as) = sends as"

definition isTerminal :: "TextStreamEvent \<Rightarrow> bool" where
  "isTerminal event = (Type event = EventTypeEnd \<or> Type event = EventTypeError)"

text \<open>A sequence of published events that ends with an \<open>End\<close> or \<open>Error\<close> event.\<close>

definition stopped :: "TextStreamEvent list \<Rightarrow> bool" where
  "stopped evs = (evs \<noteq> [] \<and> isTerminal (last evs))"

text \<open>
  The scanner by itself: the lines that successive calls of \<^verbatim>\<open>scanner.Scan()\<close> yield on
  the bytes of a body, and whether the scan then stops with \<^verbatim>\<open>bufio.ErrTooLong\<close>.
\<close>

function scanLines :: "string \<Rightarrow> string list \<times> bool" where
  "scanLines data =
     (case scanStep data of
        ScanDone \<Rightarrow> ([], False)
      | ScanTooLong \<Rightarrow> ([], True)
      | ScanToken line rest \<Rightarrow>
          (case scanLines rest of (lines, tooLong) \<Rightarrow> (line # lines, tooLong)))"
  by pat_completeness auto
termination
proof (relation "measure length")
  show "wf (measure length)"
    by simp
next
  fix data line rest :: string
  assume "scanStep data = ScanToken line rest"
  then have "data \<noteq> []" and "rest = drop 1 (dropWhile (\<lambda>c. c \<noteq> LF) data)"
    by (auto simp: scanStep_def Let_def split: if_splits)
  then have "length rest < length data"
    using length_dropWhile_le [of "\<lambda>c. c \<noteq> LF" data] by (cases data) auto
  then show "(rest, data) \<in> measure length"
    by simp
qed

declare scanLines.simps [simp del]

text \<open>
  The processing loop of the spec (section 4.3), per input line, as a function of the
  lines: skip the lines without the marker and the marker lines without payload; turn a
  payload that fails to parse into a synthetic \<open>Error\<close> event and stop; publish the
  parsed event; stop after an \<open>End\<close> or \<open>Error\<close> event.
\<close>

fun specEvents ::
  "(string \<Rightarrow> string + TextStreamEvent) \<Rightarrow> string list \<Rightarrow> TextStreamEvent list" where
  "specEvents unmarshal [] = []"
| "specEvents unmarshal (line # lines) =
     (if HasPrefix line ''data: '' then
        (if TrimPrefix line ''data: '' = [] then specEvents unmarshal lines
         else (case unmarshal (TrimPrefix line ''data: '') of
                 Inl e \<Rightarrow> [parseErrorEvent e]
               | Inr event \<Rightarrow>
                   event # (if isTerminal event then [] else specEvents unmarshal lines)))
      else specEvents unmarshal lines)"

section \<open>Transports (transport.go)\<close>

text \<open>
  \<^verbatim>\<open>PluginAPI.PluginHTTP\<close> returns a response or nil (\<open>None\<close>).
  \<^verbatim>\<open>AppAPI.ServeInternalPluginRequest\<close> writes into the recorder it is given; the model
  returns the recorder as the call leaves it.
\<close>

type_synonym PluginAPI = "Request \<Rightarrow> Response option"

record ResponseRecorder =
  Code :: int
  RecorderBody :: string

type_synonym AppAPI = "string \<Rightarrow> Request \<Rightarrow> string \<Rightarrow> string \<Rightarrow> ResponseRecorder"

datatype RoundTripper =
    pluginAPIRoundTripper PluginAPI
  | appAPIRoundTripper AppAPI string

record Client =
  httpClient :: RoundTripper

definition NewClient :: "PluginAPI \<Rightarrow> Client" where
  "NewClient api = \<lparr>httpClient = pluginAPIRoundTripper api\<rparr>"

definition NewClientFromApp :: "AppAPI \<Rightarrow> string \<Rightarrow> Client" where
  "NewClientFromApp api userID = \<lparr>httpClient = appAPIRoundTripper api userID\<rparr>"

text \<open>
  \<^verbatim>\<open>removeFirstPath\<close> rewrites \<^verbatim>\<open>r.URL.Path\<close> in place. On the empty path the slice
  expression \<^verbatim>\<open>path[1:]\<close> panics (slice bounds out of range): \<open>None\<close>.
\<close>

definition removeFirstPath :: "Request \<Rightarrow> Request option" where
  "removeFirstPath r =
     (let path = Path r in
      if path = [] then None
      else (let secondSlash = Index (drop 1 path) (CHR ''/'') in
            if secondSlash = - 1 then Some (r\<lparr>Path := ''/''\<rparr>)
            else Some (r\<lparr>Path := drop (nat (1 + secondSlash)) path\<rparr>)))"

text \<open>\<^verbatim>\<open>recorder.Result()\<close>: the recorded status and body; reading an in-memory body
  never fails.\<close>

definition Result :: "ResponseRecorder \<Rightarrow> Response" where
  "Result recorder =
     \<lparr>StatusCode = Code recorder, Body = \<lparr>Bytes = RecorderBody recorder, ReadErr = None\<rparr>\<rparr>"

text \<open>
  \<^verbatim>\<open>RoundTrip\<close> of the two transports. The result is \<open>None\<close> for a panic, \<open>Some (Inl err)\<close>
  for a returned error and \<open>Some (Inr resp)\<close> for a response.
\<close>

fun RoundTrip :: "RoundTripper \<Rightarrow> Request \<Rightarrow> (string + Response) option" where
  "RoundTrip (pluginAPIRoundTripper api) req =
     (case api req of
        None \<Rightarrow> Some (Inl ''failed to make interplugin request'')
      | Some resp \<Rightarrow> Some (Inr resp))"
| "RoundTrip (appAPIRoundTripper api userID) req =
     (case removeFirstPath req of
        None \<Rightarrow> None
      | Some req' \<Rightarrow> Some (Inr (Result (api userID req' mattermostServerID aiPluginID))))"

section \<open>The library environment\<close>

text \<open>
  The Go standard library calls the client makes, as parameters:
  \<^verbatim>\<open>json.Marshal\<close> of a request, \<^verbatim>\<open>http.NewRequest\<close> (method, URL string, body),
  the message of the \<^verbatim>\<open>*url.Error\<close> in which \<^verbatim>\<open>http.Client.Do\<close> wraps a transport
  error, and \<^verbatim>\<open>json.Unmarshal\<close> into each of the response types. Each returns
  \<open>Inl\<close> with the error's message when it fails.
\<close>

record 'a Env =
  json_Marshal :: "'a CompletionRequest \<Rightarrow> string + string"
  http_NewRequest :: "string \<Rightarrow> string \<Rightarrow> string option \<Rightarrow> string + Request"
  url_Error :: "Request \<Rightarrow> string \<Rightarrow> string"
  unmarshalErrorResponse :: "string \<Rightarrow> string + ErrorResponse"
  unmarshalCompletionResponse :: "string \<Rightarrow> string + CompletionResponse"
  unmarshalAgentsResponse :: "string \<Rightarrow> string + AgentsResponse"
  unmarshalServicesResponse :: "string \<Rightarrow> string + ServicesResponse"
  unmarshalTextStreamEvent :: "string \<Rightarrow> string + TextStreamEvent"

text \<open>
  \<^verbatim>\<open>c.httpClient.Do(req)\<close>: the transport's round trip, a transport error wrapped.
  A response has a status and a body only, and is returned as it comes (following a
  redirect needs a \<^verbatim>\<open>Location\<close> header).
\<close>

definition Do :: "'a Env \<Rightarrow> Client \<Rightarrow> Request \<Rightarrow> (string + Response) option" where
  "Do env c req =
     (case RoundTrip (httpClient c) req of
        None \<Rightarrow> None
      | Some (Inl err) \<Rightarrow> Some (Inl (url_Error env req err))
      | Some (Inr resp) \<Rightarrow> Some (Inr resp))"

section \<open>Completion client (the completion calls)\<close>

text \<open>
  Results are \<open>None\<close> for a panic, \<open>Some (Inl err)\<close> for a returned error (the zero
  value beside it left out) and \<open>Some (Inr v)\<close> for a value with a nil error.
\<close>

definition doCompletionRequest ::
  "'a Env \<Rightarrow> Client \<Rightarrow> string \<Rightarrow> 'a CompletionRequest \<Rightarrow> (string + string) option" where
  "doCompletionRequest env c url request =
     (case json_Marshal env request of
        Inl err \<Rightarrow> Some (Inl (''failed to marshal request: '' @ err))
      | Inr body \<Rightarrow>
     (case http_NewRequest env ''POST'' url (Some body) of
        Inl err \<Rightarrow> Some (Inl (''failed to create request: '' @ err))
      | Inr req0 \<Rightarrow>
     (let req = Header_Set req0 ''Content-Type'' ''application/json'' in
      case Do env c req of
        None \<Rightarrow> None
      | Some (Inl err) \<Rightarrow> Some (Inl (''failed to execute request: '' @ err))
      | Some (Inr resp) \<Rightarrow>
     (case io_ReadAll (Body resp) of
        Inl err \<Rightarrow> Some (Inl (''failed to read response body: '' @ err))
      | Inr respBody \<Rightarrow>
          if StatusCode resp \<noteq> 200 then
            (case unmarshalErrorResponse env respBody of
               Inl err \<Rightarrow>
                 Some (Inl (''request failed with status '' @ fmt_d (StatusCode resp)
                              @ '': '' @ respBody))
             | Inr errResp \<Rightarrow>
                 Some (Inl (''request failed with status '' @ fmt_d (StatusCode resp)
                              @ '': '' @ Error errResp)))
          else
            (case unmarshalCompletionResponse env respBody of
               Inl err \<Rightarrow> Some (Inl (''failed to unmarshal response: '' @ err))
             | Inr completionResp \<Rightarrow> Some (Inr (Completion completionResp)))))))"

text \<open>
  A streaming call returns the stream handle or an error, and leaves behind what its own
  deferred function did to the body. The handle's channel is fed by the reader goroutine;
  \<open>Stream\<close> holds the actions that goroutine performs when it is never blocked.
\<close>

record TextStreamResult =
  Stream :: "Action list"

record StreamingCall =
  Returned :: "string + TextStreamResult"
  Deferred :: "Action list"

definition doStreamingRequest ::
  "'a Env \<Rightarrow> Client \<Rightarrow> string \<Rightarrow> 'a CompletionRequest \<Rightarrow> StreamingCall option" where
  "doStreamingRequest env c url request =
     (case json_Marshal env request of
        Inl err \<Rightarrow>
          Some \<lparr>Returned = Inl (''failed to marshal request: '' @ err), Deferred = []\<rparr>
      | Inr body \<Rightarrow>
     (case http_NewRequest env ''POST'' url (Some body) of
        Inl err \<Rightarrow>
          Some \<lparr>Returned = Inl (''failed to create request: '' @ err), Deferred = []\<rparr>
      | Inr req0 \<Rightarrow>
     (let req = Header_Set (Header_Set req0 ''Content-Type'' ''application/json'')
                  ''Accept'' ''text/event-stream'' in
      case Do env c req of
        None \<Rightarrow> None
      | Some (Inl err) \<Rightarrow>
          Some \<lparr>Returned = Inl (''failed to execute request: '' @ err), Deferred = []\<rparr>
      | Some (Inr resp) \<Rightarrow>
          if StatusCode resp \<noteq> 200 then
            (case io_ReadAll (Body resp) of
               Inl err \<Rightarrow>
                 Some \<lparr>Returned = Inl (''request failed with status ''
                                          @ fmt_d (StatusCode resp)),
                       Deferred = [CloseBody]\<rparr>
             | Inr respBody \<Rightarrow>
                 (case unmarshalErrorResponse env respBody of
                    Inl err \<Rightarrow>
                      Some \<lparr>Returned = Inl (''request failed with status ''
                                               @ fmt_d (StatusCode resp) @ '': '' @ respBody),
                            Deferred = [CloseBody]\<rparr>
                  | Inr errResp \<Rightarrow>
                      Some \<lparr>Returned = Inl (''request failed with status ''
                                               @ fmt_d (StatusCode resp) @ '': ''
                                               @ Error errResp),
                            Deferred = [CloseBody]\<rparr>))
          else
            Some \<lparr>Returned =
                    Inr \<lparr>Stream = streamReader (unmarshalTextStreamEvent env) (Body resp)\<rparr>,
                  Deferred = []\<rparr>)))"

definition AgentCompletion ::
  "'a Env \<Rightarrow> Client \<Rightarrow> string \<Rightarrow> 'a CompletionRequest \<Rightarrow> (string + string) option" where
  "AgentCompletion env c agent request =
     doCompletionRequest env c
       (''/'' @ aiPluginID @ ''/bridge/v1/completion/agent/'' @ agent @ ''/nostream'') request"

definition ServiceCompletion ::
  "'a Env \<Rightarrow> Client \<Rightarrow> string \<Rightarrow> 'a CompletionRequest \<Rightarrow> (string + string) option" where
  "ServiceCompletion env c service request =
     doCompletionRequest env c
       (''/'' @ aiPluginID @ ''/bridge/v1/completion/service/'' @ service @ ''/nostream'')
       request"

definition AgentCompletionStream ::
  "'a Env \<Rightarrow> Client \<Rightarrow> string \<Rightarrow> 'a CompletionRequest \<Rightarrow> StreamingCall option" where
  "AgentCompletionStream env c agent request =
     doStreamingRequest env c
       (''/'' @ aiPluginID @ ''/bridge/v1/completion/agent/'' @ agent) request"

definition ServiceCompletionStream ::
  "'a Env \<Rightarrow> Client \<Rightarrow> string \<Rightarrow> 'a CompletionRequest \<Rightarrow> StreamingCall option" where
  "ServiceCompletionStream env c service request =
     doStreamingRequest env c
       (''/'' @ aiPluginID @ ''/bridge/v1/completion/service/'' @ service) request"

section \<open>Discovery client (GetAgents, GetServices)\<close>

text \<open>The URL string each discovery call hands to \<^verbatim>\<open>http.NewRequest\<close>.\<close>

definition agentsURL :: "string \<Rightarrow> string" where
  "agentsURL userID =
     (let url = ''/'' @ aiPluginID @ ''/bridge/v1/agents'' in
      if userID \<noteq> [] then url @ ''?user_id='' @ userID else url)"

definition servicesURL :: "string \<Rightarrow> string" where
  "servicesURL userID =
     (let url = ''/'' @ aiPluginID @ ''/bridge/v1/services'' in
      if userID \<noteq> [] then url @ ''?user_id='' @ userID else url)"

definition GetAgents ::
  "'a Env \<Rightarrow> Client \<Rightarrow> string \<Rightarrow> (string + BridgeAgentInfo list) option" where
  "GetAgents env c userID =
     (case http_NewRequest env ''GET'' (agentsURL userID) None of
        Inl err \<Rightarrow> Some (Inl (''failed to create request: '' @ err))
      | Inr req \<Rightarrow>
     (case Do env c req of
        None \<Rightarrow> None
      | Some (Inl err) \<Rightarrow> Some (Inl (''failed to execute request: '' @ err))
      | Some (Inr resp) \<Rightarrow>
     (case io_ReadAll (Body resp) of
        Inl err \<Rightarrow> Some (Inl (''failed to read response body: '' @ err))
      | Inr respBody \<Rightarrow>
          if StatusCode resp \<noteq> 200 then
            (case unmarshalErrorResponse env respBody of
               Inl err \<Rightarrow>
                 Some (Inl (''request failed with status '' @ fmt_d (StatusCode resp)
                              @ '': '' @ respBody))
             | Inr errResp \<Rightarrow>
                 Some (Inl (''request failed with status '' @ fmt_d (StatusCode resp)
                              @ '': '' @ Error errResp)))
          else
            (case unmarshalAgentsResponse env respBody of
               Inl err \<Rightarrow> Some (Inl (''failed to unmarshal response: '' @ err))
             | Inr agentsResp \<Rightarrow> Some (Inr (Agents agentsResp))))))"

definition GetServices ::
  "'a Env \<Rightarrow> Client \<Rightarrow> string \<Rightarrow> (string + BridgeServiceInfo list) option" where
  "GetServices env c userID =
     (case http_NewRequest env ''GET'' (servicesURL userID) None of
        Inl err \<Rightarrow> Some (Inl (''failed to create request: '' @ err))
      | Inr req \<Rightarrow>
     (case Do env c req of
        None \<Rightarrow> None
      | Some (Inl err) \<Rightarrow> Some (Inl (''failed to execute request: '' @ err))
      | Some (Inr resp) \<Rightarrow>
     (case io_ReadAll (Body resp) of
        Inl err \<Rightarrow> Some (Inl (''failed to read response body: '' @ err))
      | Inr respBody \<Rightarrow>
          if StatusCode resp \<noteq> 200 then
            (case unmarshalErrorResponse env respBody of
               Inl err \<Rightarrow>
                 Some (Inl (''request failed with status '' @ fmt_d (StatusCode resp)
                              @ '': '' @ respBody))
             | Inr errResp \<Rightarrow>
                 Some (Inl (''request failed with status '' @ fmt_d (StatusCode resp)
                              @ '': '' @ Error errResp)))
          else
            (case unmarshalServicesResponse env respBody of
               Inl err \<Rightarrow> Some (Inl (''failed to unmarshal response: '' @ err))
             | Inr servicesResp \<Rightarrow> Some (Inr (Services servicesResp))))))"

section \<open>A scripted environment\<close>

text \<open>
  Modelled from the spec: \<^verbatim>\<open>encoding/json\<close>, \<^verbatim>\<open>net/http\<close> and the JSON form of
  \<^verbatim>\<open>llm.TextStreamEvent\<close> are not part of the sources. The environment below fixes them
  for the examples: it reads the compact bodies of the spec's external interface
  (\<^verbatim>\<open>{"completion": string}\<close>, \<^verbatim>\<open>{"error": string}\<close>, an event with a \<^verbatim>\<open>type\<close> of
  \<^verbatim>\<open>text\<close>, \<^verbatim>\<open>end\<close> or \<^verbatim>\<open>error\<close> and a \<^verbatim>\<open>value\<close>), with strings free of escapes,
  and rejects every other input, with one addition: as \<^verbatim>\<open>json.Unmarshal\<close> does, it
  reads the object \<^verbatim>\<open>{}\<close> as an error response and leaves the error string empty.
\<close>

definition between :: "string \<Rightarrow> string \<Rightarrow> string \<Rightarrow> string option" where
  "between pre suf s =
     (let mid = take (length s - length pre - length suf) (drop (length pre) s) in
      if s = pre @ mid @ suf \<and> CHR 0x22 \<notin> set mid \<and> CHR 0x5C \<notin> set mid
      then Some mid else None)"

definition compactTextStreamEvent :: "string \<Rightarrow> string + TextStreamEvent" where
  \<open>compactTextStreamEvent s =
     (if s = ''{"type":"end"}'' then Inr \<lparr>Type = EventTypeEnd, Value = NoValue\<rparr>
      else (case between ''{"type":"text","value":"'' ''"}'' s of
              Some v \<Rightarrow> Inr \<lparr>Type = EventTypeText, Value = TextValue v\<rparr>
            | None \<Rightarrow>
                (case between ''{"type":"error","value":"'' ''"}'' s of
                   Some v \<Rightarrow> Inr \<lparr>Type = EventTypeError, Value = ErrorValue v\<rparr>
                 | None \<Rightarrow> Inl ''invalid stream event'')))\<close>

definition compactCompletionResponse :: "string \<Rightarrow> string + CompletionResponse" where
  \<open>compactCompletionResponse s =
     (case between ''{"completion":"'' ''"}'' s of
        Some v \<Rightarrow> Inr \<lparr>Completion = v\<rparr>
      | None \<Rightarrow> Inl ''invalid completion response'')\<close>

definition compactErrorResponse :: "string \<Rightarrow> string + ErrorResponse" where
  \<open>compactErrorResponse s =
     (if s = ''{}'' then Inr \<lparr>Error = []\<rparr>
      else (case between ''{"error":"'' ''"}'' s of
              Some v \<Rightarrow> Inr \<lparr>Error = v\<rparr>
            | None \<Rightarrow> Inl ''invalid error response''))\<close>

definition compactAgentsResponse :: "string \<Rightarrow> string + AgentsResponse" where
  \<open>compactAgentsResponse s =
     (if s = ''{"agents":[]}'' then Inr \<lparr>Agents = []\<rparr> else Inl ''invalid agents response'')\<close>

definition compactServicesResponse :: "string \<Rightarrow> string + ServicesResponse" where
  \<open>compactServicesResponse s =
     (if s = ''{"services":[]}'' then Inr \<lparr>Services = []\<rparr>
      else Inl ''invalid services response'')\<close>

definition compactMarshal :: "'a CompletionRequest \<Rightarrow> string + string" where
  \<open>compactMarshal request =
     (if Posts request = [] \<and> MaxGeneratedTokens request = 0 \<and> JSONOutputFormat request = []
         \<and> UserID request = [] \<and> ChannelID request = []
      then Inr ''{"posts":[]}'' else Inl ''unsupported request'')\<close>

text \<open>
  \<^verbatim>\<open>http.NewRequest\<close> parses the URL string with \<^verbatim>\<open>url.Parse\<close>. For the URLs this
  client builds (one leading slash, no scheme, no host): the fragment is cut off at the
  first \<^verbatim>\<open>#\<close>; a control byte (below \<open>0x20\<close>, or \<open>0x7F\<close>) before the fragment
  is an error; the query is cut off at the first \<^verbatim>\<open>?\<close> and kept raw; the path and the
  fragment are percent-decoded, a malformed escape being an error. The error messages
  are the core messages of \<^verbatim>\<open>net/url\<close>, without the \<^verbatim>\<open>parse "..."\<close> wrapper. URLs
  of another form are left out: the stand-in refuses them.
\<close>

definition isCTL :: "char \<Rightarrow> bool" where
  "isCTL c = ((of_char c :: nat) < 32 \<or> (of_char c :: nat) = 127)"

definition unhex :: "char \<Rightarrow> nat option" where
  "unhex c =
     (let n = (of_char c :: nat) in
      if 48 \<le> n \<and> n \<le> 57 then Some (n - 48)
      else if 97 \<le> n \<and> n \<le> 102 then Some (n - 97 + 10)
      else if 65 \<le> n \<and> n \<le> 70 then Some (n - 65 + 10)
      else None)"

fun unescape :: "string \<Rightarrow> string option" where
  "unescape [] = Some []"
| "unescape (c # cs) =
     (if c = CHR ''%'' then
        (case cs of
           h1 # h2 # rest \<Rightarrow>
             (case (unhex h1, unhex h2) of
                (Some a, Some b) \<Rightarrow> map_option ((#) (char_of (16 * a + b))) (unescape rest)
              | _ \<Rightarrow> None)
         | _ \<Rightarrow> None)
      else map_option ((#) c) (unescape cs))"

text \<open>\<^verbatim>\<open>strings.Cut\<close> at a one-byte separator: the text before it and the text after.\<close>

definition Cut :: "string \<Rightarrow> char \<Rightarrow> string \<times> string" where
  "Cut s sep = (takeWhile (\<lambda>c. c \<noteq> sep) s, drop 1 (dropWhile (\<lambda>c. c \<noteq> sep) s))"

definition compactNewRequest :: "string \<Rightarrow> string \<Rightarrow> string option \<Rightarrow> string + Request" where
  "compactNewRequest method url body =
     (case Cut url (CHR ''#'') of (u, frag) \<Rightarrow>
        if list_ex isCTL u then Inl ''net/url: invalid control character in URL''
        else if take 1 u = ''/'' \<and> take 2 u \<noteq> ''//'' then
          (case Cut u (CHR ''?'') of (rest, query) \<Rightarrow>
             (case unescape rest of
                None \<Rightarrow> Inl ''invalid URL escape''
              | Some path \<Rightarrow>
                  (case unescape frag of
                     None \<Rightarrow> Inl ''invalid URL escape''
                   | Some fragment \<Rightarrow>
                       Inr \<lparr>Method = method, Path = path, RawQuery = query,
                            Header = Map.empty, RequestBody = body\<rparr>)))
        else Inl ''unsupported URL'')"

definition compactEnv :: "'a Env" where
  "compactEnv =
     \<lparr>json_Marshal = compactMarshal,
      http_NewRequest = compactNewRequest,
      url_Error = (\<lambda>req err. Method req @ '' '' @ Path req @ '': '' @ err),
      unmarshalErrorResponse = compactErrorResponse,
      unmarshalCompletionResponse = compactCompletionResponse,
      unmarshalAgentsResponse = compactAgentsResponse,
      unmarshalServicesResponse = compactServicesResponse,
      unmarshalTextStreamEvent = compactTextStreamEvent\<rparr>"

definition emptyRequest :: "unit CompletionRequest" where
  "emptyRequest =
     \<lparr>Posts = [], MaxGeneratedTokens = 0, JSONOutputFormat = [], UserID = [], ChannelID = []\<rparr>"

text \<open>A transport scripted to answer every request with one response.\<close>

definition scripted :: "int \<Rightarrow> string \<Rightarrow> string option \<Rightarrow> Client" where
  "scripted code bytes err =
     NewClient (\<lambda>req. Some \<lparr>StatusCode = code, Body = \<lparr>Bytes = bytes, ReadErr = err\<rparr>\<rparr>)"

definition textEvent :: "string \<Rightarrow> TextStreamEvent" where
  "textEvent fragment = \<lparr>Type = EventTypeText, Value = TextValue fragment\<rparr>"

definition endEvent :: TextStreamEvent where
  "endEvent = \<lparr>Type = EventTypeEnd, Value = NoValue\<rparr>"

text \<open>A router that answers with the arguments it was called with.\<close>

definition echoRouter :: AppAPI where
  "echoRouter userID r sourcePluginID destinationPluginID =
     \<lparr>Code = 200,
      RecorderBody = userID @ '' '' @ Path r @ '' '' @ sourcePluginID @ '' ''
                       @ destinationPluginID\<rparr>"

section \<open>The scanner and the reader loop\<close>

lemma sends_deferred: "sends deferred = []"
  by (simp add: deferred_def)

lemma sends_append: "sends (xs @ ys) = sends xs @ sends ys"
  by (induction xs rule: sends.induct) simp_all

lemma sends_map_Send: "sends (map Send evs) = evs"
  by (induction evs) simp_all

lemma readLoop_shape:
  "readLoop unmarshal data err = map Send (sends (readLoop unmarshal data err)) @ deferred"
proof (induction unmarshal data err rule: readLoop.induct)
  case (1 unmarshal data err)
  show ?case
  proof (cases "scanStep data")
    case ScanDone
    then show ?thesis
      by (simp add: readLoop.simps [of unmarshal data] sends_deferred split: option.split)
  next
    case ScanTooLong
    then show ?thesis
      by (simp add: readLoop.simps [of unmarshal data] sends_deferred)
  next
    case (ScanToken line rest)
    with "1.IH" show ?thesis
      by (simp add: readLoop.simps [of unmarshal data] sends_deferred Let_def
               split: sum.split)
  qed
qed

lemma rangeStream_closed: "rangeStream (map Send evs @ CloseStream # as) = Some evs"
  by (induction evs) simp_all

lemma executed_sends:
  "executed n (map Send evs @ deferred) =
     (if length evs \<le> n then map Send evs @ deferred else map Send (take n evs))"
proof (induction evs arbitrary: n)
  case Nil
  show ?case by (simp add: deferred_def)
next
  case (Cons ev evs)
  show ?case
  proof (cases n)
    case 0
    then show ?thesis by simp
  next
    case (Suc m)
    with Cons.IH [of m] show ?thesis by simp
  qed
qed

lemma scanStep_Nil: "scanStep [] = ScanDone"
  by (simp add: scanStep_def)

lemma readLoop_Nil:
  "readLoop unmarshal [] err =
     (case err of None \<Rightarrow> deferred | Some e \<Rightarrow> Send (readErrorEvent e) # deferred)"
  by (simp add: readLoop.simps [of unmarshal "[]"] scanStep_Nil)

lemma scanStep_line:
  assumes "LF \<notin> set line" and "length line < MaxScanTokenSize"
  shows "scanStep (line @ LF # rest) = ScanToken (dropCR line) rest"
proof -
  have "takeWhile (\<lambda>c. c \<noteq> LF) (line @ LF # rest) = line"
    using assms(1) by (induction line) auto
  moreover have "dropWhile (\<lambda>c. c \<noteq> LF) (line @ LF # rest) = LF # rest"
    using assms(1) by (induction line) auto
  ultimately show ?thesis
    using assms(2) by (simp add: scanStep_def Let_def)
qed

lemma scanStep_last_line:
  assumes "LF \<notin> set line" and "line \<noteq> []" and "length line < MaxScanTokenSize"
  shows "scanStep line = ScanToken (dropCR line) []"
proof -
  have tw: "takeWhile (\<lambda>c. c \<noteq> LF) line = line"
    using assms(1) by (induction line) auto
  have dw: "dropWhile (\<lambda>c. c \<noteq> LF) line = []"
    using assms(1) by (induction line) auto
  show ?thesis
    unfolding scanStep_def Let_def tw dw using assms(2,3) by simp
qed

lemma scanStep_append:
  assumes "pre \<noteq> []" and "last pre = LF"
  shows "scanStep (pre @ data) =
           (case scanStep pre of
              ScanToken line rest \<Rightarrow> ScanToken line (rest @ data)
            | ScanTooLong \<Rightarrow> ScanTooLong
            | ScanDone \<Rightarrow> ScanDone)"
proof -
  have mem: "LF \<in> set pre"
    using assms last_in_set by metis
  have tw: "takeWhile (\<lambda>c. c \<noteq> LF) (pre @ data) = takeWhile (\<lambda>c. c \<noteq> LF) pre"
    using mem by (simp add: takeWhile_append1)
  have dw: "dropWhile (\<lambda>c. c \<noteq> LF) (pre @ data) = dropWhile (\<lambda>c. c \<noteq> LF) pre @ data"
    using mem by (simp add: dropWhile_append1)
  have "dropWhile (\<lambda>c. c \<noteq> LF) pre \<noteq> []"
    using mem by (simp add: dropWhile_eq_Nil_conv)
  then obtain c cs where ne: "dropWhile (\<lambda>c. c \<noteq> LF) pre = c # cs"
    by (cases "dropWhile (\<lambda>c. c \<noteq> LF) pre") auto
  show ?thesis
    using assms(1) by (simp add: scanStep_def tw dw ne Let_def)
qed

lemma scanStep_rest_complete:
  assumes "scanStep pre = ScanToken line rest" and "last pre = LF"
  shows "rest = [] \<or> last rest = LF"
proof -
  from assms(1) have ne: "pre \<noteq> []" and rest: "rest = drop 1 (dropWhile (\<lambda>c. c \<noteq> LF) pre)"
    by (auto simp: scanStep_def Let_def split: if_splits)
  have "pre = takeWhile (\<lambda>c. c \<noteq> LF) pre @ dropWhile (\<lambda>c. c \<noteq> LF) pre"
    by simp
  show ?thesis
  proof (cases "dropWhile (\<lambda>c. c \<noteq> LF) pre")
    case Nil
    with rest show ?thesis by simp
  next
    case (Cons c cs)
    then have "pre = takeWhile (\<lambda>c. c \<noteq> LF) pre @ c # cs"
      using takeWhile_dropWhile_id [of "\<lambda>c. c \<noteq> LF" pre] by simp
    then have "cs \<noteq> [] \<longrightarrow> last pre = last cs"
      by (metis last_appendR last_ConsR list.distinct(1))
    with Cons rest assms(2) show ?thesis by auto
  qed
qed

lemma readLoop_append:
  assumes "pre = [] \<or> last pre = LF"
  shows "readLoop unmarshal (pre @ data) err =
           (if stopped (sends (readLoop unmarshal pre None))
            then readLoop unmarshal pre None
            else map Send (sends (readLoop unmarshal pre None)) @ readLoop unmarshal data err)"
  using assms
proof (induction unmarshal pre "None :: string option" rule: readLoop.induct)
  case (1 unmarshal pre)
  show ?case
  proof (cases "pre = []")
    case True
    then show ?thesis
      by (simp add: readLoop_Nil sends_deferred stopped_def)
  next
    case False
    with "1.prems" have last: "last pre = LF" by simp
    note step = scanStep_append [OF False last, of data]
    show ?thesis
    proof (cases "scanStep pre")
      case ScanDone
      with False show ?thesis by (simp add: scanStep_def Let_def split: if_splits)
    next
      case ScanTooLong
      with step show ?thesis
        by (simp add: readLoop.simps [of unmarshal pre] readLoop.simps [of unmarshal "pre @ data"]
            sends_deferred stopped_def isTerminal_def readErrorEvent_def)
    next
      case (ScanToken line rest)
      have complete: "rest = [] \<or> last rest = LF"
        using scanStep_rest_complete [OF ScanToken last] .
      from step ScanToken have step': "scanStep (pre @ data) = ScanToken line (rest @ data)"
        by simp
      let ?payload = "TrimPrefix line ''data: ''"
      let ?P = "readLoop unmarshal (rest @ data) err =
           (if stopped (sends (readLoop unmarshal rest None))
            then readLoop unmarshal rest None
            else map Send (sends (readLoop unmarshal rest None)) @ readLoop unmarshal data err)"
      note unfold = readLoop.simps [of unmarshal pre] readLoop.simps [of unmarshal "pre @ data"]
        step' ScanToken Let_def
      consider (skip) "\<not> HasPrefix line ''data: '' \<or> ?payload = []"
        | (malformed) e where "HasPrefix line ''data: ''" "?payload \<noteq> []"
            "unmarshal ?payload = Inl e"
        | (terminal) ev where "HasPrefix line ''data: ''" "?payload \<noteq> []"
            "unmarshal ?payload = Inr ev" "isTerminal ev"
        | (continue) ev where "HasPrefix line ''data: ''" "?payload \<noteq> []"
            "unmarshal ?payload = Inr ev" "\<not> isTerminal ev"
        by (cases "unmarshal ?payload") auto
      then show ?thesis
      proof cases
        case skip
        then have ?P
          using "1.hyps"(1) [OF ScanToken _ complete]
            "1.hyps"(2) [OF ScanToken _ refl _ complete] by blast
        with skip show ?thesis
          by (auto simp: unfold)
      next
        case malformed
        then show ?thesis
          by (simp add: unfold sends_deferred stopped_def isTerminal_def parseErrorEvent_def)
      next
        case terminal
        then show ?thesis
          by (simp add: unfold sends_deferred stopped_def isTerminal_def)
      next
        case continue
        then have ?P
          using "1.hyps"(3) [OF ScanToken _ refl _ _ _ complete]
          by (simp add: isTerminal_def)
        with continue show ?thesis
          by (simp add: unfold stopped_def isTerminal_def)
      qed
    qed
  qed
qed

lemma readLoop_fault:
  "sends (readLoop unmarshal data (Some e)) =
     (if stopped (sends (readLoop unmarshal data None))
      then sends (readLoop unmarshal data None)
      else sends (readLoop unmarshal data None) @ [readErrorEvent e])"
proof (induction unmarshal data "Some e" rule: readLoop.induct)
  case (1 unmarshal data)
  note unfold = readLoop.simps [of unmarshal data] Let_def sends_deferred stopped_def
    isTerminal_def
  show ?case
  proof (cases "scanStep data")
    case ScanDone
    then show ?thesis by (simp add: unfold)
  next
    case ScanTooLong
    then show ?thesis by (simp add: unfold readErrorEvent_def)
  next
    case (ScanToken line rest)
    let ?payload = "TrimPrefix line ''data: ''"
    consider (skip) "\<not> HasPrefix line ''data: '' \<or> ?payload = []"
      | (malformed) e where "HasPrefix line ''data: ''" "?payload \<noteq> []"
          "unmarshal ?payload = Inl e"
      | (terminal) ev where "HasPrefix line ''data: ''" "?payload \<noteq> []"
          "unmarshal ?payload = Inr ev" "isTerminal ev"
      | (continue) ev where "HasPrefix line ''data: ''" "?payload \<noteq> []"
          "unmarshal ?payload = Inr ev" "\<not> isTerminal ev"
      by (cases "unmarshal ?payload") auto
    then show ?thesis
    proof cases
      case skip
      then show ?thesis
        using "1.hyps"(1) [OF ScanToken] "1.hyps"(2) [OF ScanToken _ refl] ScanToken
        by (auto simp: unfold)
    next
      case malformed
      with ScanToken show ?thesis by (simp add: unfold parseErrorEvent_def)
    next
      case terminal
      with ScanToken show ?thesis by (simp add: unfold)
    next
      case continue
      then show ?thesis
        using "1.hyps"(3) [OF ScanToken _ refl, of ev] ScanToken
        by (simp add: unfold)
    qed
  qed
qed


lemmas eval_reader = streamReader_def readLoop.simps scanStep_def LF_def CR_def dropCR_def
      MaxScanTokenSize_def HasPrefix_def TrimPrefix_def compactTextStreamEvent_def between_def
      textEvent_def endEvent_def deferred_def readErrorEvent_def parseErrorEvent_def

lemmas eval_request = compactNewRequest_def Cut_def isCTL_def unhex_def aiPluginID_def

lemmas eval_call = doStreamingRequest_def doCompletionRequest_def compactEnv_def
  compactMarshal_def emptyRequest_def eval_request Do_def scripted_def NewClient_def
  Header_Set_def io_ReadAll_def

lemma doStreamingRequest_handle:
  assumes "doStreamingRequest env c url request = Some call" and "Returned call = Inr handle"
  shows "\<exists>body. Stream handle = streamReader (unmarshalTextStreamEvent env) body
           \<and> Deferred call = []"
  using assms
  by (auto simp: doStreamingRequest_def Let_def
      split: sum.splits option.splits if_splits) blast+

lemma skipped_line:
  assumes "pre = [] \<or> last pre = LF"
    and "scanStep data = ScanToken line rest"
    and "\<not> HasPrefix line ''data: '' \<or> line = ''data: ''"
  shows "readLoop unmarshal (pre @ data) err = readLoop unmarshal (pre @ rest) err"
proof -
  from assms(3) have "\<not> HasPrefix line ''data: '' \<or> TrimPrefix line ''data: '' = []"
    by (auto simp: TrimPrefix_def HasPrefix_def)
  then have "readLoop unmarshal data err = readLoop unmarshal rest err"
    using assms(2) by (auto simp: readLoop.simps [of unmarshal data] Let_def)
  then show ?thesis
    by (simp add: readLoop_append [OF assms(1)])
qed

lemma malformed_line:
  assumes "pre = [] \<or> last pre = LF"
    and "\<not> stopped (sends (readLoop unmarshal pre None))"
    and "scanStep data = ScanToken line rest"
    and "HasPrefix line ''data: ''"
    and "TrimPrefix line ''data: '' \<noteq> []"
    and "unmarshal (TrimPrefix line ''data: '') = Inl e"
  shows "readLoop unmarshal (pre @ data) err =
           map Send (sends (readLoop unmarshal pre None))
           @ [Send (parseErrorEvent e), CloseStream, CloseBody]"
proof -
  have "readLoop unmarshal data err = [Send (parseErrorEvent e), CloseStream, CloseBody]"
    using assms(3-6) by (simp add: readLoop.simps [of unmarshal data] Let_def deferred_def)
  then show ?thesis
    using assms(2) by (simp add: readLoop_append [OF assms(1)])
qed

section \<open>Paths, messages and responses\<close>

lemma Index_absent: "c \<notin> set xs \<Longrightarrow> Index xs c = - 1"
  by (induction xs) auto

lemma Index_first: "c \<notin> set seg \<Longrightarrow> Index (seg @ c # rest) c = int (length seg)"
  by (induction seg) (auto simp: Let_def)

lemma removeFirstPath_segment:
  assumes "CHR ''/'' \<notin> set seg" and "Path req = c0 # seg @ CHR ''/'' # rest"
  shows "removeFirstPath req = Some (req\<lparr>Path := CHR ''/'' # rest\<rparr>)"
proof -
  have "nat (1 + int (length seg)) = Suc (length seg)"
    by simp
  then show ?thesis
    using assms by (simp add: removeFirstPath_def Index_first Let_def)
qed

lemma removeFirstPath_single:
  assumes "CHR ''/'' \<notin> set seg" and "Path req = c0 # seg"
  shows "removeFirstPath req = Some (req\<lparr>Path := ''/''\<rparr>)"
  using assms by (simp add: removeFirstPath_def Index_absent Let_def)

lemma sublist_suffix: "sublist xs (ps @ xs)"
  using sublist_appendI [of xs ps "[]"] by simp

lemma sublist_middle: "sublist xs (ps @ xs @ ss)"
  by (rule sublist_appendI)

lemma sync_unreadable:
  assumes "json_Marshal env request = Inr b"
    and "http_NewRequest env ''POST'' url (Some b) = Inr req0"
    and "Do env c (Header_Set req0 ''Content-Type'' ''application/json'') = Some (Inr resp)"
    and "ReadErr (Body resp) = Some e"
  shows "doCompletionRequest env c url request
           = Some (Inl (''failed to read response body: '' @ e))"
  using assms by (simp add: doCompletionRequest_def io_ReadAll_def)

lemma stream_unreadable:
  assumes "json_Marshal env request = Inr b"
    and "http_NewRequest env ''POST'' url (Some b) = Inr req0"
    and "Do env c (Header_Set (Header_Set req0 ''Content-Type'' ''application/json'')
                    ''Accept'' ''text/event-stream'') = Some (Inr resp)"
    and "ReadErr (Body resp) = Some e" and "StatusCode resp \<noteq> 200"
  shows "doStreamingRequest env c url request
           = Some \<lparr>Returned = Inl (''request failed with status '' @ fmt_d (StatusCode resp)),
                   Deferred = [CloseBody]\<rparr>"
  using assms by (simp add: doStreamingRequest_def io_ReadAll_def)

lemma sync_rejected:
  assumes "json_Marshal env request = Inr b"
    and "http_NewRequest env ''POST'' url (Some b) = Inr req0"
    and "Do env c (Header_Set req0 ''Content-Type'' ''application/json'') = Some (Inr resp)"
    and "ReadErr (Body resp) = None" and "StatusCode resp \<noteq> 200"
  shows "doCompletionRequest env c url request
           = Some (Inl (''request failed with status '' @ fmt_d (StatusCode resp) @ '': ''
                @ (case unmarshalErrorResponse env (Bytes (Body resp)) of
                     Inl err \<Rightarrow> Bytes (Body resp) | Inr errResp \<Rightarrow> Error errResp)))"
  using assms by (simp add: doCompletionRequest_def io_ReadAll_def split: sum.split)

lemma stream_rejected:
  assumes "json_Marshal env request = Inr b"
    and "http_NewRequest env ''POST'' url (Some b) = Inr req0"
    and "Do env c (Header_Set (Header_Set req0 ''Content-Type'' ''application/json'')
                    ''Accept'' ''text/event-stream'') = Some (Inr resp)"
    and "ReadErr (Body resp) = None" and "StatusCode resp \<noteq> 200"
  shows "doStreamingRequest env c url request
           = Some \<lparr>Returned = Inl (''request failed with status '' @ fmt_d (StatusCode resp)
                @ '': ''
                @ (case unmarshalErrorResponse env (Bytes (Body resp)) of
                     Inl err \<Rightarrow> Bytes (Body resp) | Inr errResp \<Rightarrow> Error errResp)),
                   Deferred = [CloseBody]\<rparr>"
  using assms by (simp add: doStreamingRequest_def io_ReadAll_def split: sum.split)

lemma fmt_d_403: "fmt_d 403 = ''403''"
  by (simp add: fmt_d_def natToDec.simps digitChar_def)

lemma compact_Marshal:
  \<open>json_Marshal (compactEnv :: unit Env) emptyRequest = Inr ''{"posts":[]}''\<close>
  by (simp add: compactEnv_def compactMarshal_def emptyRequest_def)

lemma compact_NewRequest:
  "http_NewRequest (compactEnv :: unit Env) = compactNewRequest"
  by (simp add: compactEnv_def)

lemma scripted_Do:
  "Do env (scripted code bytes err) req
     = Some (Inr \<lparr>StatusCode = code, Body = \<lparr>Bytes = bytes, ReadErr = err\<rparr>\<rparr>)"
  by (simp add: Do_def scripted_def NewClient_def)

lemma sync_accepted:
  assumes "json_Marshal env request = Inr b"
    and "http_NewRequest env ''POST'' url (Some b) = Inr req0"
    and "Do env c (Header_Set req0 ''Content-Type'' ''application/json'') = Some (Inr resp)"
    and "StatusCode resp = 200" and "Body resp = \<lparr>Bytes = body, ReadErr = None\<rparr>"
    and "unmarshalCompletionResponse env body = Inr completionResp"
  shows "doCompletionRequest env c url request = Some (Inr (Completion completionResp))"
  using assms by (simp add: doCompletionRequest_def io_ReadAll_def)

lemma stream_accepted:
  assumes "json_Marshal env request = Inr b"
    and "http_NewRequest env ''POST'' url (Some b) = Inr req0"
    and "Do env c (Header_Set (Header_Set req0 ''Content-Type'' ''application/json'')
                    ''Accept'' ''text/event-stream'') = Some (Inr resp)"
    and "StatusCode resp = 200"
  shows "doStreamingRequest env c url request
           = Some \<lparr>Returned =
                     Inr \<lparr>Stream = streamReader (unmarshalTextStreamEvent env) (Body resp)\<rparr>,
                   Deferred = []\<rparr>"
  using assms by (simp add: doStreamingRequest_def)

lemma three_frames:
  assumes a: \<open>unmarshal ''{"type":"text","value":"a"}'' = Inr (textEvent ''a'')\<close>
    and b: \<open>unmarshal ''{"type":"text","value":"b"}'' = Inr (textEvent ''b'')\<close>
    and e: \<open>unmarshal ''{"type":"end"}'' = Inr endEvent\<close>
    and tail: "tail = [] \<or> tail = [LF]"
  shows \<open>readLoop unmarshal
      (''data: {"type":"text","value":"a"}'' @ [LF] @ ''data: {"type":"text","value":"b"}''
         @ [LF] @ ''data: {"type":"end"}'' @ tail) err
     = [Send (textEvent ''a''), Send (textEvent ''b''), Send endEvent, CloseStream, CloseBody]\<close>
  using tail
proof
  assume "tail = []"
  then show ?thesis
    using a b e
    by (simp add: readLoop.simps scanStep_def LF_def CR_def dropCR_def MaxScanTokenSize_def
        HasPrefix_def TrimPrefix_def textEvent_def endEvent_def deferred_def)
next
  assume "tail = [LF]"
  then show ?thesis
    using a b e
    by (simp add: readLoop.simps scanStep_def LF_def CR_def dropCR_def MaxScanTokenSize_def
        HasPrefix_def TrimPrefix_def textEvent_def endEvent_def deferred_def)
qed

lemma stopped_Cons: "\<not> isTerminal ev \<Longrightarrow> stopped (ev # evs) = stopped evs"
  by (simp add: stopped_def)

lemma readLoop_spec:
  "sends (readLoop unmarshal data err) =
     (let evs = specEvents unmarshal (fst (scanLines data)) in
      if stopped evs then evs
      else if snd (scanLines data) then evs @ [readErrorEvent ErrTooLong]
      else (case err of None \<Rightarrow> evs | Some e \<Rightarrow> evs @ [readErrorEvent e]))"
proof (induction unmarshal data err rule: readLoop.induct)
  case (1 unmarshal data err)
  note unfold = readLoop.simps [of unmarshal data] scanLines.simps [of data] Let_def
    sends_deferred case_prod_beta
  show ?case
  proof (cases "scanStep data")
    case ScanDone
    then show ?thesis
      by (simp add: unfold stopped_def split: option.split)
  next
    case ScanTooLong
    then show ?thesis
      by (simp add: unfold stopped_def)
  next
    case (ScanToken line rest)
    let ?payload = "TrimPrefix line ''data: ''"
    consider (skip) "\<not> HasPrefix line ''data: '' \<or> ?payload = []"
      | (malformed) e where "HasPrefix line ''data: ''" "?payload \<noteq> []"
          "unmarshal ?payload = Inl e"
      | (terminal) ev where "HasPrefix line ''data: ''" "?payload \<noteq> []"
          "unmarshal ?payload = Inr ev" "isTerminal ev"
      | (continue) ev where "HasPrefix line ''data: ''" "?payload \<noteq> []"
          "unmarshal ?payload = Inr ev" "\<not> isTerminal ev"
      by (cases "unmarshal ?payload") auto
    then show ?thesis
    proof cases
      case skip
      then show ?thesis
        using "1.IH"(1) [OF ScanToken] "1.IH"(2) [OF ScanToken _ refl] ScanToken
        by (auto simp: unfold)
    next
      case malformed
      with ScanToken show ?thesis
        by (simp add: unfold stopped_def isTerminal_def parseErrorEvent_def)
    next
      case terminal
      with ScanToken show ?thesis
        by (simp add: unfold stopped_def isTerminal_def)
    next
      case continue
      then show ?thesis
        using "1.IH"(3) [OF ScanToken _ refl, of ev] ScanToken
        by (simp add: unfold stopped_Cons isTerminal_def split: option.split)
    qed
  qed
qed

lemma scanStep_too_long:
  assumes "LF \<notin> set long" and "MaxScanTokenSize \<le> length long"
  shows "scanStep (long @ tail) = ScanTooLong"
proof -
  have tw: "takeWhile (\<lambda>c. c \<noteq> LF) (long @ tail) = long @ takeWhile (\<lambda>c. c \<noteq> LF) tail"
    using assms(1) by (induction long) auto
  have "long \<noteq> []"
    using assms(2) by (auto simp: MaxScanTokenSize_def)
  then show ?thesis
    using assms(2) by (simp add: scanStep_def Let_def tw)
qed

lemma readLoop_too_long:
  assumes "LF \<notin> set long" and "MaxScanTokenSize \<le> length long"
  shows "readLoop unmarshal (long @ tail) err = Send (readErrorEvent ErrTooLong) # deferred"
  by (simp add: readLoop.simps [of unmarshal "long @ tail"] scanStep_too_long [OF assms])

lemma over_long_line:
  assumes "pre = [] \<or> last pre = LF"
    and "\<not> stopped (sends (readLoop unmarshal pre None))"
    and "LF \<notin> set long" and "MaxScanTokenSize \<le> length long"
  shows "readLoop unmarshal (pre @ long @ tail) err =
           map Send (sends (readLoop unmarshal pre None))
           @ [Send (readErrorEvent ErrTooLong), CloseStream, CloseBody]"
  using assms(2)
  by (simp add: readLoop_append [OF assms(1)] readLoop_too_long [OF assms(3,4)] deferred_def)

lemma scanLines_line:
  assumes "LF \<notin> set raw" and "length raw < MaxScanTokenSize"
  shows "scanLines (raw @ LF # tail)
           = (dropCR raw # fst (scanLines tail), snd (scanLines tail))"
  by (simp add: scanLines.simps [of "raw @ LF # tail"] scanStep_line [OF assms]
      case_prod_beta)

lemma scanLines_too_long:
  assumes "LF \<notin> set long" and "MaxScanTokenSize \<le> length long"
  shows "scanLines (long @ tail) = ([], True)"
  by (simp add: scanLines.simps [of "long @ tail"] scanStep_too_long [OF assms])

lemma long_line:
  "LF \<notin> set (replicate 65536 (CHR ''x''))"
  "MaxScanTokenSize \<le> length (replicate 65536 (CHR ''x''))"
  by (simp_all add: LF_def MaxScanTokenSize_def)

section \<open>Termination of the reader and closure of the channel\<close>

text \<open>
  C10. Whatever the bytes of the body and however reading them ends, the reader
  goroutine comes to an end: it performs finitely many sends and then, on every exit
  path, closes the channel and the body. A consumer that ranges over the channel
  receives those events and sees the channel closed, so its loop ends.
\<close>

theorem reader_terminates_and_closes_channel:
  "\<exists>evs. streamReader unmarshal body = map Send evs @ [CloseStream, CloseBody]
         \<and> rangeStream (streamReader unmarshal body) = Some evs"
proof -
  let ?evs = "sends (streamReader unmarshal body)"
  have shape: "streamReader unmarshal body = map Send ?evs @ [CloseStream, CloseBody]"
    unfolding streamReader_def using readLoop_shape [of unmarshal "Bytes body" "ReadErr body"]
    by (simp add: deferred_def)
  have "rangeStream (map Send ?evs @ CloseStream # [CloseBody]) = Some ?evs"
    by (rule rangeStream_closed)
  with shape have "rangeStream (streamReader unmarshal body) = Some ?evs"
    by simp
  with shape show ?thesis by blast
qed

section \<open>The Sandboxed Relay transport\<close>

text \<open>
  C8. Through a client built with \<open>NewClient\<close>: when the host's \<open>PluginHTTP\<close> returns
  nil, the round trip returns an error and no response, and \<open>Do\<close> reports it as a
  transport error; when it returns a response, that response comes back unchanged with
  no error.
\<close>

theorem relay_nil_is_transport_error:
  "(api req = None \<longrightarrow>
      RoundTrip (httpClient (NewClient api)) req
        = Some (Inl ''failed to make interplugin request'')
      \<and> Do env (NewClient api) req
        = Some (Inl (url_Error env req ''failed to make interplugin request'')))
   \<and> (\<forall>resp. api req = Some resp \<longrightarrow>
      RoundTrip (httpClient (NewClient api)) req = Some (Inr resp)
      \<and> Do env (NewClient api) req = Some (Inr resp))"
  by (simp add: NewClient_def Do_def)

theorem relay_nil_is_transport_error_witness:
  "Do (compactEnv :: unit Env) (NewClient (\<lambda>req. None))
      \<lparr>Method = ''GET'', Path = ''/x'', RawQuery = [], Header = Map.empty, RequestBody = None\<rparr>
     = Some (Inl ''GET /x: failed to make interplugin request'')
   \<and> Do (compactEnv :: unit Env)
        (NewClient (\<lambda>req. Some \<lparr>StatusCode = 200, Body = \<lparr>Bytes = ''ok'', ReadErr = None\<rparr>\<rparr>))
        \<lparr>Method = ''GET'', Path = ''/x'', RawQuery = [], Header = Map.empty, RequestBody = None\<rparr>
     = Some (Inr \<lparr>StatusCode = 200, Body = \<lparr>Bytes = ''ok'', ReadErr = None\<rparr>\<rparr>)"
  using relay_nil_is_transport_error
    [of "\<lambda>req. None"
        "\<lparr>Method = ''GET'', Path = ''/x'', RawQuery = [], Header = Map.empty, RequestBody = None\<rparr>"
        "compactEnv :: unit Env"]
    relay_nil_is_transport_error
    [of "\<lambda>req. Some \<lparr>StatusCode = 200, Body = \<lparr>Bytes = ''ok'', ReadErr = None\<rparr>\<rparr>"
        "\<lparr>Method = ''GET'', Path = ''/x'', RawQuery = [], Header = Map.empty, RequestBody = None\<rparr>"
        "compactEnv :: unit Env"]
  by (simp add: compactEnv_def)

section \<open>End of input and read faults\<close>

text \<open>
  C1, as the code has it. The events the decoder publishes are those of the spec's
  processing loop on the lines the scanner yields and, after them, one synthesized
  \<open>Error\<close> event describing the read failure exactly when the loop has not stopped at
  an \<open>End\<close> or \<open>Error\<close> event and \<^verbatim>\<open>scanner.Err()\<close> is not nil: a line did not fit the
  scanner's buffer, or reading the body failed with a read error. When the body simply
  ends (\<^verbatim>\<open>io.EOF\<close>), \<^verbatim>\<open>scanner.Err()\<close> is nil and no event is synthesized: the
  decoder publishes the events of the frames and closes the channel.
\<close>

theorem read_fault_synthesizes_error:
  "streamReader unmarshal \<lparr>Bytes = data, ReadErr = err\<rparr> =
     map Send
       (let evs = specEvents unmarshal (fst (scanLines data)) in
        if stopped evs then evs
        else if snd (scanLines data) then evs @ [readErrorEvent ErrTooLong]
        else (case err of None \<Rightarrow> evs | Some e \<Rightarrow> evs @ [readErrorEvent e]))
     @ [CloseStream, CloseBody]"
proof -
  have "streamReader unmarshal \<lparr>Bytes = data, ReadErr = err\<rparr>
      = map Send (sends (readLoop unmarshal data err)) @ [CloseStream, CloseBody]"
    using readLoop_shape [of unmarshal data err] by (simp add: streamReader_def deferred_def)
  then show ?thesis
    by (simp only: readLoop_spec)
qed

theorem read_fault_synthesizes_error_witness:
  \<open>streamReader compactTextStreamEvent
      \<lparr>Bytes = ''data: {"type":"text","value":"a"}'' @ [LF],
       ReadErr = Some ''unexpected EOF''\<rparr>
     = [Send (textEvent ''a''), Send (readErrorEvent ''unexpected EOF''), CloseStream, CloseBody]
   \<and> streamReader compactTextStreamEvent
      \<lparr>Bytes = ''data: {"type":"text","value":"a"}'' @ LF # replicate 65536 (CHR ''x''),
       ReadErr = None\<rparr>
     = [Send (textEvent ''a''), Send (readErrorEvent ErrTooLong), CloseStream, CloseBody]
   \<and> streamReader compactTextStreamEvent
      \<lparr>Bytes = ''data: {"type":"text","value":"a"}'' @ LF # ''data: {"type":"end"}'',
       ReadErr = Some ''unexpected EOF''\<rparr>
     = [Send (textEvent ''a''), Send endEvent, CloseStream, CloseBody]\<close>
proof -
  have scan1: \<open>scanLines (''data: {"type":"text","value":"a"}'' @ [LF])
      = ([''data: {"type":"text","value":"a"}''], False)\<close>
    by (simp add: scanLines.simps scanStep_def LF_def CR_def dropCR_def MaxScanTokenSize_def)
  have scan2: \<open>scanLines (''data: {"type":"text","value":"a"}'' @ LF # replicate 65536 (CHR ''x''))
      = ([''data: {"type":"text","value":"a"}''], True)\<close>
  proof -
    have line: \<open>LF \<notin> set ''data: {"type":"text","value":"a"}''\<close>
      \<open>length ''data: {"type":"text","value":"a"}'' < MaxScanTokenSize\<close>
      by (simp_all add: LF_def MaxScanTokenSize_def)
    show ?thesis
      using scanLines_line [OF line, of "replicate 65536 (CHR ''x'')"]
        scanLines_too_long [OF long_line, of "[]"]
      by (simp add: CR_def dropCR_def)
  qed
  have scan3: \<open>scanLines (''data: {"type":"text","value":"a"}'' @ LF # ''data: {"type":"end"}'')
      = ([''data: {"type":"text","value":"a"}'', ''data: {"type":"end"}''], False)\<close>
    by (simp add: scanLines.simps scanStep_def LF_def CR_def dropCR_def MaxScanTokenSize_def)
  show ?thesis
    using read_fault_synthesizes_error
      [of compactTextStreamEvent \<open>''data: {"type":"text","value":"a"}'' @ [LF]\<close>
          "Some ''unexpected EOF''"]
      read_fault_synthesizes_error
      [of compactTextStreamEvent
          \<open>''data: {"type":"text","value":"a"}'' @ LF # replicate 65536 (CHR ''x'')\<close> None]
      read_fault_synthesizes_error
      [of compactTextStreamEvent
          \<open>''data: {"type":"text","value":"a"}'' @ LF # ''data: {"type":"end"}''\<close>
          "Some ''unexpected EOF''"]
      scan1 scan2 scan3
    by (simp add: HasPrefix_def TrimPrefix_def compactTextStreamEvent_def
        between_def stopped_def isTerminal_def textEvent_def endEvent_def)
qed

text \<open>
  C1 as stated fails at a body that ends after one text frame: the consumer receives
  the text event and then finds the channel closed; no \<open>Error\<close> event is published.
\<close>

theorem premature_end_counterexample:
  \<open>streamReader compactTextStreamEvent
       \<lparr>Bytes = ''data: {"type":"text","value":"a"}'' @ [LF], ReadErr = None\<rparr>
     = [Send (textEvent ''a''), CloseStream, CloseBody]\<close>
  by (simp add: eval_reader)

section \<open>A consumer that stops reading\<close>

text \<open>
  C2, as the code has it. The body of a streaming call is closed by the reader goroutine
  when it returns, and the goroutine returns only after each of its sends has been
  received. So the body gets closed exactly when the consumer receives as many events as
  the decoder publishes; a consumer that stops earlier leaves the goroutine blocked in
  its next send, and \<^verbatim>\<open>resp.Body.Close()\<close> is never reached.
\<close>

theorem body_closed_iff_stream_drained:
  assumes "doStreamingRequest env c url request = Some call" and "Returned call = Inr handle"
  shows "CloseBody \<in> set (Deferred call @ executed n (Stream handle))
           \<longleftrightarrow> length (sends (Stream handle)) \<le> n"
proof -
  from doStreamingRequest_handle [OF assms] obtain body
    where stream: "Stream handle = streamReader (unmarshalTextStreamEvent env) body"
      and deferred: "Deferred call = []"
    by blast
  let ?evs = "sends (Stream handle)"
  have shape: "Stream handle = map Send ?evs @ deferred"
    unfolding stream streamReader_def by (rule readLoop_shape)
  have "executed n (Stream handle) =
      (if length ?evs \<le> n then map Send ?evs @ deferred else map Send (take n ?evs))"
    using executed_sends [of n ?evs] shape by simp
  then show ?thesis
    by (auto simp: deferred deferred_def)
qed

theorem body_closed_iff_stream_drained_witness:
  \<open>doStreamingRequest (compactEnv :: unit Env)
       (scripted 200 (''data: {"type":"text","value":"a"}'' @ [LF] @ ''data: {"type":"end"}'' @ [LF]) None)
       ''/mattermost-ai/bridge/v1/completion/agent/bot'' emptyRequest
     = Some \<lparr>Returned = Inr \<lparr>Stream = [Send (textEvent ''a''), Send endEvent, CloseStream, CloseBody]\<rparr>,
             Deferred = []\<rparr>
   \<and> CloseBody \<in> set (executed 2 [Send (textEvent ''a''), Send endEvent, CloseStream, CloseBody])
   \<and> CloseBody \<notin> set (executed 1 [Send (textEvent ''a''), Send endEvent, CloseStream, CloseBody])\<close>
proof -
  let ?call = "\<lparr>Returned = Inr \<lparr>Stream = [Send (textEvent ''a''), Send endEvent, CloseStream, CloseBody]\<rparr>,
             Deferred = []\<rparr>"
  have call: \<open>doStreamingRequest (compactEnv :: unit Env)
       (scripted 200 (''data: {"type":"text","value":"a"}'' @ [LF] @ ''data: {"type":"end"}'' @ [LF]) None)
       ''/mattermost-ai/bridge/v1/completion/agent/bot'' emptyRequest = Some ?call\<close>
    by (simp add: eval_call eval_reader)
  have handle: "Returned ?call
      = Inr \<lparr>Stream = [Send (textEvent ''a''), Send endEvent, CloseStream, CloseBody]\<rparr>"
    by simp
  show ?thesis
    using call body_closed_iff_stream_drained [OF call handle, of 2]
      body_closed_iff_stream_drained [OF call handle, of 1]
    by simp
qed

text \<open>
  C2 as stated fails for a stream of a text frame and an end frame whose consumer
  receives the text event and stops: the goroutine has sent one event and is blocked
  sending the second; neither the channel nor the body is closed.
\<close>

theorem abandoned_stream_counterexample:
  \<open>doStreamingRequest (compactEnv :: unit Env)
       (scripted 200 (''data: {"type":"text","value":"a"}'' @ [LF] @ ''data: {"type":"end"}'' @ [LF]) None)
       ''/mattermost-ai/bridge/v1/completion/agent/bot'' emptyRequest
     = Some \<lparr>Returned = Inr \<lparr>Stream = [Send (textEvent ''a''), Send endEvent, CloseStream, CloseBody]\<rparr>,
             Deferred = []\<rparr>
   \<and> executed 1 [Send (textEvent ''a''), Send endEvent, CloseStream, CloseBody]
     = [Send (textEvent ''a'')]\<close>
  by (simp add: eval_call eval_reader)

section \<open>Malformed frames and padding lines\<close>

text \<open>
  C4, as the code has it. Let the decoder reach a line (after the whole lines \<open>pre\<close>, on
  which it has not stopped). If the line carries the marker \<^verbatim>\<open>data: \<close> and a non-empty
  payload that fails to parse, the decoder publishes one synthetic \<open>Error\<close> event for it
  and returns: nothing of the rest of the body is published, whatever it holds. If the
  line lacks the marker, or is the marker alone, the decoder goes on as if the line were
  not there: it produces no event. The lines the decoder reaches are those the scanner
  yields, which are the lines shorter than 65536 bytes (the last one with or without
  its line feed). A longer line, with the marker or without, is not skipped: the scan fails, and the decoder publishes an \<open>Error\<close> event
  for the read failure and stops.
\<close>

theorem malformed_frame_ends_stream:
  "((pre = [] \<or> last pre = LF) \<and> \<not> stopped (sends (readLoop unmarshal pre None))
      \<and> scanStep data = ScanToken line rest \<and> HasPrefix line ''data: ''
      \<and> TrimPrefix line ''data: '' \<noteq> [] \<and> unmarshal (TrimPrefix line ''data: '') = Inl e
     \<longrightarrow> streamReader unmarshal \<lparr>Bytes = pre @ data, ReadErr = err\<rparr>
           = map Send (sends (readLoop unmarshal pre None))
             @ [Send (parseErrorEvent e), CloseStream, CloseBody])
   \<and> ((pre = [] \<or> last pre = LF) \<and> scanStep data = ScanToken line rest
      \<and> (\<not> HasPrefix line ''data: '' \<or> line = ''data: '')
     \<longrightarrow> streamReader unmarshal \<lparr>Bytes = pre @ data, ReadErr = err\<rparr>
           = streamReader unmarshal \<lparr>Bytes = pre @ rest, ReadErr = err\<rparr>)
   \<and> (LF \<notin> set raw \<and> length raw < MaxScanTokenSize
     \<longrightarrow> scanStep (raw @ LF # tail) = ScanToken (dropCR raw) tail)
   \<and> (LF \<notin> set raw \<and> raw \<noteq> [] \<and> length raw < MaxScanTokenSize
     \<longrightarrow> scanStep raw = ScanToken (dropCR raw) [])
   \<and> ((pre = [] \<or> last pre = LF) \<and> \<not> stopped (sends (readLoop unmarshal pre None))
      \<and> LF \<notin> set long \<and> MaxScanTokenSize \<le> length long
     \<longrightarrow> streamReader unmarshal \<lparr>Bytes = pre @ long @ tail, ReadErr = err\<rparr>
           = map Send (sends (readLoop unmarshal pre None))
             @ [Send (readErrorEvent ErrTooLong), CloseStream, CloseBody])"
  using malformed_line [of pre unmarshal data line rest e err]
    skipped_line [of pre data line rest unmarshal err]
    scanStep_line [of raw tail] scanStep_last_line [of raw]
    over_long_line [of pre unmarshal long tail err]
  by (simp add: streamReader_def)

theorem malformed_frame_ends_stream_witness:
  \<open>streamReader compactTextStreamEvent
      \<lparr>Bytes = (''data: {"type":"text","value":"a"}'' @ [LF])
               @ (''data: {not-json'' @ [LF] @ ''data: {"type":"end"}'' @ [LF]),
       ReadErr = None\<rparr>
     = [Send (textEvent ''a''), Send (parseErrorEvent ''invalid stream event''),
        CloseStream, CloseBody]
   \<and> streamReader compactTextStreamEvent
      \<lparr>Bytes = [] @ ('': keep-alive'' @ [LF] @ ''data: '' @ [LF] @ ''data: {"type":"end"}'' @ [LF]),
       ReadErr = None\<rparr>
     = streamReader compactTextStreamEvent
      \<lparr>Bytes = [] @ (''data: '' @ [LF] @ ''data: {"type":"end"}'' @ [LF]), ReadErr = None\<rparr>
   \<and> streamReader compactTextStreamEvent
      \<lparr>Bytes = [] @ (''data: '' @ [LF] @ ''data: {"type":"end"}'' @ [LF]), ReadErr = None\<rparr>
     = streamReader compactTextStreamEvent
      \<lparr>Bytes = [] @ (''data: {"type":"end"}'' @ [LF]), ReadErr = None\<rparr>
   \<and> scanStep ('': keep-alive'' @ LF # ''data: '') = ScanToken '': keep-alive'' ''data: ''
   \<and> scanStep '': keep-alive'' = ScanToken '': keep-alive'' []
   \<and> streamReader compactTextStreamEvent
      \<lparr>Bytes = (''data: {"type":"text","value":"a"}'' @ [LF])
               @ replicate 65536 (CHR ''x'') @ (LF # ''data: {"type":"end"}''),
       ReadErr = None\<rparr>
     = [Send (textEvent ''a''), Send (readErrorEvent ErrTooLong), CloseStream, CloseBody]\<close>
proof -
  have pre: \<open>sends (readLoop compactTextStreamEvent
      (''data: {"type":"text","value":"a"}'' @ [LF]) None) = [textEvent ''a'']\<close>
    by (simp add: eval_reader)
  have scan1: \<open>scanStep (''data: {not-json'' @ [LF] @ ''data: {"type":"end"}'' @ [LF])
      = ScanToken ''data: {not-json'' (''data: {"type":"end"}'' @ [LF])\<close>
    by (simp add: eval_reader)
  have scan2: \<open>scanStep ('': keep-alive'' @ [LF] @ ''data: '' @ [LF] @ ''data: {"type":"end"}'' @ [LF])
      = ScanToken '': keep-alive'' (''data: '' @ [LF] @ ''data: {"type":"end"}'' @ [LF])\<close>
    by (simp add: eval_reader)
  have scan3: \<open>scanStep (''data: '' @ [LF] @ ''data: {"type":"end"}'' @ [LF])
      = ScanToken ''data: '' (''data: {"type":"end"}'' @ [LF])\<close>
    by (simp add: eval_reader)
  have bad: \<open>compactTextStreamEvent (TrimPrefix ''data: {not-json'' ''data: '')
      = Inl ''invalid stream event''\<close>
    by (simp add: eval_reader)
  have short: "LF \<notin> set '': keep-alive''" "length '': keep-alive'' < MaxScanTokenSize"
    "dropCR '': keep-alive'' = '': keep-alive''"
    by (simp_all add: LF_def CR_def dropCR_def MaxScanTokenSize_def)
  show ?thesis
    using malformed_frame_ends_stream
      [where pre = \<open>''data: {"type":"text","value":"a"}'' @ [LF]\<close>
         and unmarshal = compactTextStreamEvent
         and data = \<open>''data: {not-json'' @ [LF] @ ''data: {"type":"end"}'' @ [LF]\<close>
         and line = \<open>''data: {not-json''\<close> and rest = \<open>''data: {"type":"end"}'' @ [LF]\<close>
         and e = \<open>''invalid stream event''\<close> and err = None
         and raw = \<open>'': keep-alive''\<close> and tail = \<open>''data: ''\<close> and long = "[]"]
      malformed_frame_ends_stream
      [where pre = \<open>[]\<close> and unmarshal = compactTextStreamEvent
         and data = \<open>'': keep-alive'' @ [LF] @ ''data: '' @ [LF] @ ''data: {"type":"end"}'' @ [LF]\<close>
         and line = \<open>'': keep-alive''\<close>
         and rest = \<open>''data: '' @ [LF] @ ''data: {"type":"end"}'' @ [LF]\<close>
         and e = \<open>''x''\<close> and err = None and raw = "[]" and tail = "[]" and long = "[]"]
      malformed_frame_ends_stream
      [where pre = \<open>[]\<close> and unmarshal = compactTextStreamEvent
         and data = \<open>''data: '' @ [LF] @ ''data: {"type":"end"}'' @ [LF]\<close>
         and line = \<open>''data: ''\<close> and rest = \<open>''data: {"type":"end"}'' @ [LF]\<close>
         and e = \<open>''x''\<close> and err = None and raw = "[]" and tail = "[]" and long = "[]"]
      malformed_frame_ends_stream
      [where pre = \<open>''data: {"type":"text","value":"a"}'' @ [LF]\<close>
         and unmarshal = compactTextStreamEvent and data = "[]" and line = "[]" and rest = "[]"
         and e = \<open>''x''\<close> and err = None and raw = "[]"
         and tail = \<open>LF # ''data: {"type":"end"}''\<close>
         and long = "replicate 65536 (CHR ''x'')"]
      pre scan1 scan2 scan3 bad short long_line
    by (simp add: stopped_def isTerminal_def textEvent_def HasPrefix_def TrimPrefix_def LF_def)
qed

text \<open>
  C4 as stated fails at a line of 65536 bytes without the marker: it is not skipped.
  The scanner cannot hold it, the decoder publishes an \<open>Error\<close> event and returns, and the
  end frame after it is never read.
\<close>

theorem long_padding_line_counterexample:
  \<open>streamReader compactTextStreamEvent
      \<lparr>Bytes = replicate 65536 (CHR ''x'') @ (LF # ''data: {"type":"end"}'' @ [LF]),
       ReadErr = None\<rparr>
     = [Send (readErrorEvent ErrTooLong), CloseStream, CloseBody]\<close>
  using readLoop_too_long [OF long_line, of compactTextStreamEvent
      \<open>LF # ''data: {"type":"end"}'' @ [LF]\<close> None]
  by (simp add: streamReader_def deferred_def)

section \<open>Three frames in order\<close>

text \<open>
  C3. A streaming call (\<open>AgentCompletionStream\<close> or \<open>ServiceCompletionStream\<close>) that
  gets a response with status 200 whose body is the three lines
  \<^verbatim>\<open>data: {"type":"text","value":"a"}\<close>, \<^verbatim>\<open>data: {"type":"text","value":"b"}\<close>,
  \<^verbatim>\<open>data: {"type":"end"}\<close> returns a stream on which the reader sends \<open>Text a\<close>,
  \<open>Text b\<close>, \<open>End\<close> in this order and then closes the channel: the consumer receives
  exactly these three events, and none after \<open>End\<close>. The decoder of the JSON payloads is a
  parameter, assumed to read the three payloads as the spec says.
\<close>

theorem three_frames_in_order:
  assumes marshal: "json_Marshal env request = Inr b"
    and agentURL: "http_NewRequest env ''POST''
        (''/'' @ aiPluginID @ ''/bridge/v1/completion/agent/'' @ target) (Some b) = Inr req1"
    and serviceURL: "http_NewRequest env ''POST''
        (''/'' @ aiPluginID @ ''/bridge/v1/completion/service/'' @ target) (Some b) = Inr req2"
    and agentTransport:
      "Do env c (Header_Set (Header_Set req1 ''Content-Type'' ''application/json'')
                   ''Accept'' ''text/event-stream'') = Some (Inr resp)"
    and serviceTransport:
      "Do env c (Header_Set (Header_Set req2 ''Content-Type'' ''application/json'')
                   ''Accept'' ''text/event-stream'') = Some (Inr resp)"
    and status: "StatusCode resp = 200"
    and body: \<open>Bytes (Body resp) =
        ''data: {"type":"text","value":"a"}'' @ [LF] @ ''data: {"type":"text","value":"b"}''
          @ [LF] @ ''data: {"type":"end"}'' @ tail\<close>
    and tail: "tail = [] \<or> tail = [LF]"
    and textA: \<open>unmarshalTextStreamEvent env ''{"type":"text","value":"a"}''
        = Inr (textEvent ''a'')\<close>
    and textB: \<open>unmarshalTextStreamEvent env ''{"type":"text","value":"b"}''
        = Inr (textEvent ''b'')\<close>
    and ending: \<open>unmarshalTextStreamEvent env ''{"type":"end"}'' = Inr endEvent\<close>
  shows "AgentCompletionStream env c target request
           = Some \<lparr>Returned = Inr \<lparr>Stream = [Send (textEvent ''a''), Send (textEvent ''b''),
                                            Send endEvent, CloseStream, CloseBody]\<rparr>,
                   Deferred = []\<rparr>
       \<and> ServiceCompletionStream env c target request
           = Some \<lparr>Returned = Inr \<lparr>Stream = [Send (textEvent ''a''), Send (textEvent ''b''),
                                            Send endEvent, CloseStream, CloseBody]\<rparr>,
                   Deferred = []\<rparr>
       \<and> rangeStream [Send (textEvent ''a''), Send (textEvent ''b''), Send endEvent,
                       CloseStream, CloseBody]
           = Some [textEvent ''a'', textEvent ''b'', endEvent]"
proof -
  have "streamReader (unmarshalTextStreamEvent env) (Body resp)
      = [Send (textEvent ''a''), Send (textEvent ''b''), Send endEvent, CloseStream, CloseBody]"
    unfolding streamReader_def body
    by (rule three_frames [OF textA textB ending tail])
  then show ?thesis
    using stream_accepted [OF marshal agentURL agentTransport status]
      stream_accepted [OF marshal serviceURL serviceTransport status]
    by (simp add: AgentCompletionStream_def ServiceCompletionStream_def)
qed

theorem three_frames_in_order_witness:
  \<open>AgentCompletionStream (compactEnv :: unit Env)
      (scripted 200 (''data: {"type":"text","value":"a"}'' @ [LF]
          @ ''data: {"type":"text","value":"b"}'' @ [LF] @ ''data: {"type":"end"}'' @ [LF]) None)
      ''bot'' emptyRequest
     = Some \<lparr>Returned = Inr \<lparr>Stream = [Send (textEvent ''a''), Send (textEvent ''b''),
                                      Send endEvent, CloseStream, CloseBody]\<rparr>,
             Deferred = []\<rparr>
   \<and> ServiceCompletionStream (compactEnv :: unit Env)
      (scripted 200 (''data: {"type":"text","value":"a"}'' @ [LF]
          @ ''data: {"type":"text","value":"b"}'' @ [LF] @ ''data: {"type":"end"}'' @ [LF]) None)
      ''bot'' emptyRequest
     = Some \<lparr>Returned = Inr \<lparr>Stream = [Send (textEvent ''a''), Send (textEvent ''b''),
                                      Send endEvent, CloseStream, CloseBody]\<rparr>,
             Deferred = []\<rparr>\<close>
proof -
  let ?env = "compactEnv :: unit Env"
  let ?bytes = \<open>''data: {"type":"text","value":"a"}'' @ [LF]
          @ ''data: {"type":"text","value":"b"}'' @ [LF] @ ''data: {"type":"end"}'' @ [LF]\<close>
  let ?c = "scripted 200 ?bytes None"
  let ?resp = "\<lparr>StatusCode = 200, Body = \<lparr>Bytes = ?bytes, ReadErr = None\<rparr>\<rparr>"
  have \<open>\<exists>req. http_NewRequest ?env ''POST''
        (''/'' @ aiPluginID @ ''/bridge/v1/completion/agent/'' @ ''bot'')
        (Some ''{"posts":[]}'') = Inr req\<close>
    by (simp add: compact_NewRequest eval_request)
  then obtain req1 where agentURL: \<open>http_NewRequest ?env ''POST''
        (''/'' @ aiPluginID @ ''/bridge/v1/completion/agent/'' @ ''bot'')
        (Some ''{"posts":[]}'') = Inr req1\<close>
    by blast
  have \<open>\<exists>req. http_NewRequest ?env ''POST''
        (''/'' @ aiPluginID @ ''/bridge/v1/completion/service/'' @ ''bot'')
        (Some ''{"posts":[]}'') = Inr req\<close>
    by (simp add: compact_NewRequest eval_request)
  then obtain req2 where serviceURL: \<open>http_NewRequest ?env ''POST''
        (''/'' @ aiPluginID @ ''/bridge/v1/completion/service/'' @ ''bot'')
        (Some ''{"posts":[]}'') = Inr req2\<close>
    by blast
  have transport: "Do ?env ?c req = Some (Inr ?resp)" for req
    by (simp add: scripted_Do)
  have status: "StatusCode ?resp = 200"
    by simp
  have body: "Bytes (Body ?resp) = ?bytes"
    by simp
  have tail: "[LF] = [] \<or> [LF] = [LF]"
    by simp
  have textA: \<open>unmarshalTextStreamEvent ?env ''{"type":"text","value":"a"}''
        = Inr (textEvent ''a'')\<close>
    and textB: \<open>unmarshalTextStreamEvent ?env ''{"type":"text","value":"b"}''
        = Inr (textEvent ''b'')\<close>
    and ending: \<open>unmarshalTextStreamEvent ?env ''{"type":"end"}'' = Inr endEvent\<close>
    by (simp_all add: compactEnv_def compactTextStreamEvent_def between_def textEvent_def
        endEvent_def)
  show ?thesis
    using three_frames_in_order [OF compact_Marshal agentURL serviceURL transport transport
        status body tail textA textB ending]
    by simp
qed

section \<open>Rejected responses\<close>

text \<open>
  C5, as the code has it. When the response has a status outside 200..299 (indeed any
  status other than 200), the two completion calls return an error and no text, and the
  two streaming calls return an error and no stream handle: no reader is started, so no
  event is produced, and the body is closed on return. When the body is read in full,
  the message is the same for all four: if \<^verbatim>\<open>json.Unmarshal\<close> reads the body as an
  error response, it is the status followed by the decoded error string (which is empty
  when the JSON has no \<^verbatim>\<open>error\<close> field: the message then holds the status alone); if
  not, it is the status followed by the raw body. When reading the body fails, the
  completion calls report the read failure, with neither status nor body, and the
  streaming calls report the status alone.
\<close>

theorem non_2xx_is_error:
  assumes marshal: "json_Marshal env request = Inr b"
    and agentURL: "http_NewRequest env ''POST''
        (''/'' @ aiPluginID @ ''/bridge/v1/completion/agent/'' @ target @ ''/nostream'') (Some b)
        = Inr req1"
    and serviceURL: "http_NewRequest env ''POST''
        (''/'' @ aiPluginID @ ''/bridge/v1/completion/service/'' @ target @ ''/nostream'') (Some b)
        = Inr req2"
    and agentStreamURL: "http_NewRequest env ''POST''
        (''/'' @ aiPluginID @ ''/bridge/v1/completion/agent/'' @ target) (Some b) = Inr req3"
    and serviceStreamURL: "http_NewRequest env ''POST''
        (''/'' @ aiPluginID @ ''/bridge/v1/completion/service/'' @ target) (Some b) = Inr req4"
    and agentTransport:
      "Do env c (Header_Set req1 ''Content-Type'' ''application/json'') = Some (Inr resp)"
    and serviceTransport:
      "Do env c (Header_Set req2 ''Content-Type'' ''application/json'') = Some (Inr resp)"
    and agentStreamTransport:
      "Do env c (Header_Set (Header_Set req3 ''Content-Type'' ''application/json'')
                   ''Accept'' ''text/event-stream'') = Some (Inr resp)"
    and serviceStreamTransport:
      "Do env c (Header_Set (Header_Set req4 ''Content-Type'' ''application/json'')
                   ''Accept'' ''text/event-stream'') = Some (Inr resp)"
    and status: "\<not> (200 \<le> StatusCode resp \<and> StatusCode resp < 300)"
  shows "\<exists>msg smsg.
           AgentCompletion env c target request = Some (Inl msg)
         \<and> ServiceCompletion env c target request = Some (Inl msg)
         \<and> AgentCompletionStream env c target request
             = Some \<lparr>Returned = Inl smsg, Deferred = [CloseBody]\<rparr>
         \<and> ServiceCompletionStream env c target request
             = Some \<lparr>Returned = Inl smsg, Deferred = [CloseBody]\<rparr>
         \<and> (case ReadErr (Body resp) of
              Some e \<Rightarrow>
                msg = ''failed to read response body: '' @ e
                \<and> smsg = ''request failed with status '' @ fmt_d (StatusCode resp)
            | None \<Rightarrow>
                msg = smsg
                \<and> (case unmarshalErrorResponse env (Bytes (Body resp)) of
                     Inr errResp \<Rightarrow>
                       msg = ''request failed with status '' @ fmt_d (StatusCode resp) @ '': ''
                               @ Error errResp
                       \<and> sublist (Error errResp) msg
                   | Inl err \<Rightarrow>
                       msg = ''request failed with status '' @ fmt_d (StatusCode resp) @ '': ''
                               @ Bytes (Body resp)
                       \<and> sublist (fmt_d (StatusCode resp)) msg
                       \<and> sublist (Bytes (Body resp)) msg))"
proof -
  from status have not200: "StatusCode resp \<noteq> 200"
    by auto
  show ?thesis
  proof (cases "ReadErr (Body resp)")
    case (Some e)
    note calls =
      sync_unreadable [OF marshal agentURL agentTransport Some, folded AgentCompletion_def]
      sync_unreadable [OF marshal serviceURL serviceTransport Some,
        folded ServiceCompletion_def]
      stream_unreadable [OF marshal agentStreamURL agentStreamTransport Some not200,
        folded AgentCompletionStream_def]
      stream_unreadable [OF marshal serviceStreamURL serviceStreamTransport Some not200,
        folded ServiceCompletionStream_def]
    from calls Some show ?thesis
      by simp
  next
    case None
    let ?body = "Bytes (Body resp)"
    let ?head = "''request failed with status '' @ fmt_d (StatusCode resp) @ '': ''"
    note calls =
      sync_rejected [OF marshal agentURL agentTransport None not200,
        folded AgentCompletion_def]
      sync_rejected [OF marshal serviceURL serviceTransport None not200,
        folded ServiceCompletion_def]
      stream_rejected [OF marshal agentStreamURL agentStreamTransport None not200,
        folded AgentCompletionStream_def]
      stream_rejected [OF marshal serviceStreamURL serviceStreamTransport None not200,
        folded ServiceCompletionStream_def]
    show ?thesis
    proof (cases "unmarshalErrorResponse env ?body")
      case (Inl err)
      let ?msg = "''request failed with status '' @ fmt_d (StatusCode resp) @ '': '' @ ?body"
      have "sublist (fmt_d (StatusCode resp)) ?msg"
        by (rule sublist_middle)
      moreover have "sublist ?body ?msg"
        using sublist_suffix [of ?body ?head] by simp
      moreover have "AgentCompletion env c target request = Some (Inl ?msg)
         \<and> ServiceCompletion env c target request = Some (Inl ?msg)
         \<and> AgentCompletionStream env c target request
             = Some \<lparr>Returned = Inl ?msg, Deferred = [CloseBody]\<rparr>
         \<and> ServiceCompletionStream env c target request
             = Some \<lparr>Returned = Inl ?msg, Deferred = [CloseBody]\<rparr>"
        using calls Inl by simp
      ultimately show ?thesis
        using Inl None by (intro exI [of _ ?msg]) simp
    next
      case (Inr errResp)
      let ?msg = "''request failed with status '' @ fmt_d (StatusCode resp) @ '': ''
                    @ Error errResp"
      have "sublist (Error errResp) ?msg"
        using sublist_suffix [of "Error errResp" ?head] by simp
      moreover have "AgentCompletion env c target request = Some (Inl ?msg)
         \<and> ServiceCompletion env c target request = Some (Inl ?msg)
         \<and> AgentCompletionStream env c target request
             = Some \<lparr>Returned = Inl ?msg, Deferred = [CloseBody]\<rparr>
         \<and> ServiceCompletionStream env c target request
             = Some \<lparr>Returned = Inl ?msg, Deferred = [CloseBody]\<rparr>"
        using calls Inr by simp
      ultimately show ?thesis
        using Inr None by (intro exI [of _ ?msg]) simp
    qed
  qed
qed

theorem non_2xx_is_error_witness:
  \<open>AgentCompletion (compactEnv :: unit Env) (scripted 403 ''{"error":"forbidden"}'' None)
       ''bot'' emptyRequest
     = Some (Inl ''request failed with status 403: forbidden'')
   \<and> ServiceCompletion (compactEnv :: unit Env) (scripted 403 ''{"error":"forbidden"}'' None)
       ''bot'' emptyRequest
     = Some (Inl ''request failed with status 403: forbidden'')
   \<and> AgentCompletionStream (compactEnv :: unit Env)
       (scripted 403 ''{"error":"forbidden"}'' None) ''bot'' emptyRequest
     = Some \<lparr>Returned = Inl ''request failed with status 403: forbidden'',
             Deferred = [CloseBody]\<rparr>
   \<and> ServiceCompletionStream (compactEnv :: unit Env)
       (scripted 403 ''{"error":"forbidden"}'' None) ''bot'' emptyRequest
     = Some \<lparr>Returned = Inl ''request failed with status 403: forbidden'',
             Deferred = [CloseBody]\<rparr>\<close>
proof -
  let ?env = "compactEnv :: unit Env"
  let ?c = \<open>scripted 403 ''{"error":"forbidden"}'' None\<close>
  let ?resp = \<open>\<lparr>StatusCode = 403, Body = \<lparr>Bytes = ''{"error":"forbidden"}'', ReadErr = None\<rparr>\<rparr>\<close>
  have \<open>\<exists>req. http_NewRequest ?env ''POST''
        (''/'' @ aiPluginID @ ''/bridge/v1/completion/agent/'' @ ''bot'' @ ''/nostream'')
        (Some ''{"posts":[]}'') = Inr req\<close>
    by (simp add: compact_NewRequest eval_request)
  then obtain req1 where agentURL: \<open>http_NewRequest ?env ''POST''
        (''/'' @ aiPluginID @ ''/bridge/v1/completion/agent/'' @ ''bot'' @ ''/nostream'')
        (Some ''{"posts":[]}'') = Inr req1\<close>
    by blast
  have \<open>\<exists>req. http_NewRequest ?env ''POST''
        (''/'' @ aiPluginID @ ''/bridge/v1/completion/service/'' @ ''bot'' @ ''/nostream'')
        (Some ''{"posts":[]}'') = Inr req\<close>
    by (simp add: compact_NewRequest eval_request)
  then obtain req2 where serviceURL: \<open>http_NewRequest ?env ''POST''
        (''/'' @ aiPluginID @ ''/bridge/v1/completion/service/'' @ ''bot'' @ ''/nostream'')
        (Some ''{"posts":[]}'') = Inr req2\<close>
    by blast
  have \<open>\<exists>req. http_NewRequest ?env ''POST''
        (''/'' @ aiPluginID @ ''/bridge/v1/completion/agent/'' @ ''bot'')
        (Some ''{"posts":[]}'') = Inr req\<close>
    by (simp add: compact_NewRequest eval_request)
  then obtain req3 where agentStreamURL: \<open>http_NewRequest ?env ''POST''
        (''/'' @ aiPluginID @ ''/bridge/v1/completion/agent/'' @ ''bot'')
        (Some ''{"posts":[]}'') = Inr req3\<close>
    by blast
  have \<open>\<exists>req. http_NewRequest ?env ''POST''
        (''/'' @ aiPluginID @ ''/bridge/v1/completion/service/'' @ ''bot'')
        (Some ''{"posts":[]}'') = Inr req\<close>
    by (simp add: compact_NewRequest eval_request)
  then obtain req4 where serviceStreamURL: \<open>http_NewRequest ?env ''POST''
        (''/'' @ aiPluginID @ ''/bridge/v1/completion/service/'' @ ''bot'')
        (Some ''{"posts":[]}'') = Inr req4\<close>
    by blast
  have transport: "Do ?env ?c req = Some (Inr ?resp)" for req
    by (simp add: scripted_Do)
  have status: "\<not> (200 \<le> StatusCode ?resp \<and> StatusCode ?resp < 300)"
    by simp
  have parsed: \<open>unmarshalErrorResponse ?env ''{"error":"forbidden"}'' = Inr \<lparr>Error = ''forbidden''\<rparr>\<close>
    by (simp add: compactEnv_def compactErrorResponse_def between_def)
  show ?thesis
    using non_2xx_is_error [OF compact_Marshal agentURL serviceURL agentStreamURL
        serviceStreamURL transport transport transport transport status] parsed
    by (simp add: fmt_d_403)
qed

text \<open>
  C5 as stated fails in its message part. A response with status 500 and the body
  \<^verbatim>\<open>{}\<close> parses as an error response with an empty error string: the message holds the
  status and nothing of the body. A response with status 500 whose body cannot be read
  to its end makes the completion call report the read failure: the message holds
  neither the status nor the body.
\<close>

theorem opaque_body_counterexample:
  \<open>AgentCompletion (compactEnv :: unit Env) (scripted 500 ''{}'' None) ''bot'' emptyRequest
     = Some (Inl ''request failed with status 500: '')
   \<and> AgentCompletion (compactEnv :: unit Env) (scripted 500 ''boom'' (Some ''unexpected EOF''))
       ''bot'' emptyRequest
     = Some (Inl ''failed to read response body: unexpected EOF'')\<close>
  by (simp add: AgentCompletion_def eval_call compactErrorResponse_def between_def fmt_d_def
      natToDec.simps digitChar_def)

section \<open>Accepted completions\<close>

text \<open>
  C6. When the response has status 200 and its body parses as a completion response,
  \<open>AgentCompletion\<close> and \<open>ServiceCompletion\<close> return its completion text with no
  error; the body \<^verbatim>\<open>{"completion":"hi"}\<close> gives \<^verbatim>\<open>hi\<close>.
\<close>

theorem completion_200_returns_text:
  assumes marshal: "json_Marshal env request = Inr b"
    and agentURL: "http_NewRequest env ''POST''
        (''/'' @ aiPluginID @ ''/bridge/v1/completion/agent/'' @ target @ ''/nostream'') (Some b)
        = Inr req1"
    and serviceURL: "http_NewRequest env ''POST''
        (''/'' @ aiPluginID @ ''/bridge/v1/completion/service/'' @ target @ ''/nostream'') (Some b)
        = Inr req2"
    and agentTransport:
      "Do env c (Header_Set req1 ''Content-Type'' ''application/json'') = Some (Inr resp)"
    and serviceTransport:
      "Do env c (Header_Set req2 ''Content-Type'' ''application/json'') = Some (Inr resp)"
    and status: "StatusCode resp = 200"
    and body: "Body resp = \<lparr>Bytes = body, ReadErr = None\<rparr>"
    and parsed: "unmarshalCompletionResponse env body = Inr completionResp"
  shows "AgentCompletion env c target request = Some (Inr (Completion completionResp))
       \<and> ServiceCompletion env c target request = Some (Inr (Completion completionResp))"
  using sync_accepted [OF marshal agentURL agentTransport status body parsed]
    sync_accepted [OF marshal serviceURL serviceTransport status body parsed]
  by (simp add: AgentCompletion_def ServiceCompletion_def)

theorem completion_200_returns_text_witness:
  \<open>AgentCompletion (compactEnv :: unit Env) (scripted 200 ''{"completion":"hi"}'' None)
       ''bot'' emptyRequest = Some (Inr ''hi'')
   \<and> ServiceCompletion (compactEnv :: unit Env) (scripted 200 ''{"completion":"hi"}'' None)
       ''openai'' emptyRequest = Some (Inr ''hi'')\<close>
proof -
  let ?env = "compactEnv :: unit Env"
  let ?c = \<open>scripted 200 ''{"completion":"hi"}'' None\<close>
  let ?resp = \<open>\<lparr>StatusCode = 200, Body = \<lparr>Bytes = ''{"completion":"hi"}'', ReadErr = None\<rparr>\<rparr>\<close>
  have newreq: \<open>\<exists>req. http_NewRequest ?env ''POST''
        (''/'' @ aiPluginID @ ''/bridge/v1/completion/agent/'' @ target @ ''/nostream'')
        (Some ''{"posts":[]}'') = Inr req\<close>
    \<open>\<exists>req. http_NewRequest ?env ''POST''
        (''/'' @ aiPluginID @ ''/bridge/v1/completion/service/'' @ target @ ''/nostream'')
        (Some ''{"posts":[]}'') = Inr req\<close>
    if "target = ''bot'' \<or> target = ''openai''" for target
    using that by (auto simp: compact_NewRequest eval_request)
  obtain req1 req2 where bot: \<open>http_NewRequest ?env ''POST''
        (''/'' @ aiPluginID @ ''/bridge/v1/completion/agent/'' @ ''bot'' @ ''/nostream'')
        (Some ''{"posts":[]}'') = Inr req1\<close>
      \<open>http_NewRequest ?env ''POST''
        (''/'' @ aiPluginID @ ''/bridge/v1/completion/service/'' @ ''bot'' @ ''/nostream'')
        (Some ''{"posts":[]}'') = Inr req2\<close>
    using newreq [of "''bot''"] by auto
  obtain req3 req4 where openai: \<open>http_NewRequest ?env ''POST''
        (''/'' @ aiPluginID @ ''/bridge/v1/completion/agent/'' @ ''openai'' @ ''/nostream'')
        (Some ''{"posts":[]}'') = Inr req3\<close>
      \<open>http_NewRequest ?env ''POST''
        (''/'' @ aiPluginID @ ''/bridge/v1/completion/service/'' @ ''openai'' @ ''/nostream'')
        (Some ''{"posts":[]}'') = Inr req4\<close>
    using newreq [of "''openai''"] by auto
  have transport: "Do ?env ?c req = Some (Inr ?resp)" for req
    by (simp add: scripted_Do)
  have status: "StatusCode ?resp = 200"
    by simp
  have body: \<open>Body ?resp = \<lparr>Bytes = ''{"completion":"hi"}'', ReadErr = None\<rparr>\<close>
    by simp
  have parsed: \<open>unmarshalCompletionResponse ?env ''{"completion":"hi"}''
      = Inr \<lparr>Completion = ''hi''\<rparr>\<close>
    by (simp add: compactEnv_def compactCompletionResponse_def between_def)
  show ?thesis
    using completion_200_returns_text [OF compact_Marshal bot transport transport status body
        parsed]
      completion_200_returns_text [OF compact_Marshal openai transport transport status body
        parsed]
    by simp
qed

section \<open>The Direct Dispatch transport\<close>

text \<open>
  C7. Through a client built with \<open>NewClientFromApp\<close>, the router is called with the
  user id captured at construction, with the source and destination ids, and with the
  request whose path has lost its first segment: a path of a first byte \<open>c0\<close>, a
  segment without slash and a rest starting with a slash becomes that rest; a path with
  no second slash becomes \<^verbatim>\<open>/\<close>.
\<close>

theorem direct_dispatch_strips_first_segment:
  "CHR ''/'' \<notin> set seg \<longrightarrow>
     (Path req = c0 # seg @ CHR ''/'' # rest \<longrightarrow>
        RoundTrip (httpClient (NewClientFromApp api userID)) req
          = Some (Inr (Result (api userID (req\<lparr>Path := CHR ''/'' # rest\<rparr>)
                                 mattermostServerID aiPluginID))))
     \<and> (Path req = c0 # seg \<longrightarrow>
        RoundTrip (httpClient (NewClientFromApp api userID)) req
          = Some (Inr (Result (api userID (req\<lparr>Path := ''/''\<rparr>)
                                 mattermostServerID aiPluginID))))"
  by (simp add: NewClientFromApp_def removeFirstPath_segment removeFirstPath_single)

theorem direct_dispatch_strips_first_segment_witness:
  "RoundTrip (httpClient (NewClientFromApp echoRouter ''u1''))
      \<lparr>Method = ''GET'', Path = ''/mattermost-ai/bridge/v1/agents'', RawQuery = [],
       Header = Map.empty, RequestBody = None\<rparr>
     = Some (Inr \<lparr>StatusCode = 200,
                  Body = \<lparr>Bytes = ''u1 /bridge/v1/agents mattermost-server mattermost-ai'',
                          ReadErr = None\<rparr>\<rparr>)
   \<and> RoundTrip (httpClient (NewClientFromApp echoRouter ''u1''))
      \<lparr>Method = ''GET'', Path = ''/mattermost-ai'', RawQuery = [],
       Header = Map.empty, RequestBody = None\<rparr>
     = Some (Inr \<lparr>StatusCode = 200,
                  Body = \<lparr>Bytes = ''u1 / mattermost-server mattermost-ai'',
                          ReadErr = None\<rparr>\<rparr>)"
  using direct_dispatch_strips_first_segment
    [of "''mattermost-ai''"
        "\<lparr>Method = ''GET'', Path = ''/mattermost-ai/bridge/v1/agents'', RawQuery = [],
          Header = Map.empty, RequestBody = None\<rparr>"
        "CHR ''/''" "''bridge/v1/agents''" echoRouter "''u1''"]
    direct_dispatch_strips_first_segment
    [of "''mattermost-ai''"
        "\<lparr>Method = ''GET'', Path = ''/mattermost-ai'', RawQuery = [],
          Header = Map.empty, RequestBody = None\<rparr>"
        "CHR ''/''" "[]" echoRouter "''u1''"]
  by (simp add: echoRouter_def Result_def mattermostServerID_def aiPluginID_def)

section \<open>Discovery\<close>

text \<open>
  C9, as the code has it. \<open>GetAgents\<close> and \<open>GetServices\<close> hand \<^verbatim>\<open>http.NewRequest\<close> the
  method \<^verbatim>\<open>GET\<close> and the URL string made of the endpoint followed, when the user id is
  not empty, by \<^verbatim>\<open>?user_id=\<close> and the user id as it is, without escaping; when the user
  id is empty the URL is the endpoint alone, without a query string. If
  \<^verbatim>\<open>http.NewRequest\<close> refuses the URL, no request is issued and the call returns the
  error. Otherwise the request it built is the one sent through the transport: an error
  of the transport is returned as an error, and a response with status 200 whose body
  holds a list is returned as that list, an empty list as the empty list, with no error.
\<close>

theorem discovery_query_and_empty_list:
  "agentsURL userID
     = ''/mattermost-ai/bridge/v1/agents'' @ (if userID = [] then [] else ''?user_id='' @ userID)
   \<and> servicesURL userID
     = ''/mattermost-ai/bridge/v1/services'' @ (if userID = [] then [] else ''?user_id='' @ userID)
   \<and> (CHR ''?'' \<in> set (agentsURL userID) \<longleftrightarrow> userID \<noteq> [])
   \<and> (CHR ''?'' \<in> set (servicesURL userID) \<longleftrightarrow> userID \<noteq> [])
   \<and> (http_NewRequest env ''GET''
          (''/mattermost-ai/bridge/v1/agents''
             @ (if userID = [] then [] else ''?user_id='' @ userID)) None = Inl err
        \<longrightarrow> GetAgents env c userID = Some (Inl (''failed to create request: '' @ err)))
   \<and> (http_NewRequest env ''GET''
          (''/mattermost-ai/bridge/v1/agents''
             @ (if userID = [] then [] else ''?user_id='' @ userID)) None = Inr req
        \<and> RoundTrip (httpClient c) req = Some (Inl terr)
        \<longrightarrow> GetAgents env c userID
              = Some (Inl (''failed to execute request: '' @ url_Error env req terr)))
   \<and> (http_NewRequest env ''GET''
          (''/mattermost-ai/bridge/v1/agents''
             @ (if userID = [] then [] else ''?user_id='' @ userID)) None = Inr req
        \<and> RoundTrip (httpClient c) req = Some (Inr resp)
        \<and> StatusCode resp = 200 \<and> Body resp = \<lparr>Bytes = body, ReadErr = None\<rparr>
        \<and> unmarshalAgentsResponse env body = Inr agentsResp
        \<longrightarrow> GetAgents env c userID = Some (Inr (Agents agentsResp))
            \<and> (Agents agentsResp = [] \<longrightarrow> GetAgents env c userID = Some (Inr [])))
   \<and> (http_NewRequest env ''GET''
          (''/mattermost-ai/bridge/v1/services''
             @ (if userID = [] then [] else ''?user_id='' @ userID)) None = Inl err
        \<longrightarrow> GetServices env c userID = Some (Inl (''failed to create request: '' @ err)))
   \<and> (http_NewRequest env ''GET''
          (''/mattermost-ai/bridge/v1/services''
             @ (if userID = [] then [] else ''?user_id='' @ userID)) None = Inr req
        \<and> RoundTrip (httpClient c) req = Some (Inl terr)
        \<longrightarrow> GetServices env c userID
              = Some (Inl (''failed to execute request: '' @ url_Error env req terr)))
   \<and> (http_NewRequest env ''GET''
          (''/mattermost-ai/bridge/v1/services''
             @ (if userID = [] then [] else ''?user_id='' @ userID)) None = Inr req
        \<and> RoundTrip (httpClient c) req = Some (Inr resp)
        \<and> StatusCode resp = 200 \<and> Body resp = \<lparr>Bytes = body, ReadErr = None\<rparr>
        \<and> unmarshalServicesResponse env body = Inr servicesResp
        \<longrightarrow> GetServices env c userID = Some (Inr (Services servicesResp))
            \<and> (Services servicesResp = [] \<longrightarrow> GetServices env c userID = Some (Inr [])))"
proof -
  have urls: "agentsURL userID
     = ''/mattermost-ai/bridge/v1/agents'' @ (if userID = [] then [] else ''?user_id='' @ userID)"
    "servicesURL userID
     = ''/mattermost-ai/bridge/v1/services'' @ (if userID = [] then [] else ''?user_id='' @ userID)"
    by (simp_all add: agentsURL_def servicesURL_def aiPluginID_def)
  have query: "CHR ''?'' \<in> set (agentsURL userID) \<longleftrightarrow> userID \<noteq> []"
    "CHR ''?'' \<in> set (servicesURL userID) \<longleftrightarrow> userID \<noteq> []"
    by (simp_all add: urls)
  have refused: "http_NewRequest env ''GET'' (agentsURL userID) None = Inl err
      \<longrightarrow> GetAgents env c userID = Some (Inl (''failed to create request: '' @ err))"
    by (simp add: GetAgents_def)
  have failed: "http_NewRequest env ''GET'' (agentsURL userID) None = Inr req
      \<and> RoundTrip (httpClient c) req = Some (Inl terr)
      \<longrightarrow> GetAgents env c userID
            = Some (Inl (''failed to execute request: '' @ url_Error env req terr))"
    by (simp add: GetAgents_def Do_def)
  have agents: "http_NewRequest env ''GET'' (agentsURL userID) None = Inr req
      \<and> RoundTrip (httpClient c) req = Some (Inr resp)
      \<and> StatusCode resp = 200 \<and> Body resp = \<lparr>Bytes = body, ReadErr = None\<rparr>
      \<and> unmarshalAgentsResponse env body = Inr agentsResp
      \<longrightarrow> GetAgents env c userID = Some (Inr (Agents agentsResp))
          \<and> (Agents agentsResp = [] \<longrightarrow> GetAgents env c userID = Some (Inr []))"
    by (simp add: GetAgents_def Do_def io_ReadAll_def)
  have refused': "http_NewRequest env ''GET'' (servicesURL userID) None = Inl err
      \<longrightarrow> GetServices env c userID = Some (Inl (''failed to create request: '' @ err))"
    by (simp add: GetServices_def)
  have failed': "http_NewRequest env ''GET'' (servicesURL userID) None = Inr req
      \<and> RoundTrip (httpClient c) req = Some (Inl terr)
      \<longrightarrow> GetServices env c userID
            = Some (Inl (''failed to execute request: '' @ url_Error env req terr))"
    by (simp add: GetServices_def Do_def)
  have services: "http_NewRequest env ''GET'' (servicesURL userID) None = Inr req
      \<and> RoundTrip (httpClient c) req = Some (Inr resp)
      \<and> StatusCode resp = 200 \<and> Body resp = \<lparr>Bytes = body, ReadErr = None\<rparr>
      \<and> unmarshalServicesResponse env body = Inr servicesResp
      \<longrightarrow> GetServices env c userID = Some (Inr (Services servicesResp))
          \<and> (Services servicesResp = [] \<longrightarrow> GetServices env c userID = Some (Inr []))"
    by (simp add: GetServices_def Do_def io_ReadAll_def)
  show ?thesis
    by (intro conjI, rule urls(1), rule urls(2), rule query(1), rule query(2),
        rule refused [unfolded urls], rule failed [unfolded urls], rule agents [unfolded urls],
        rule refused' [unfolded urls], rule failed' [unfolded urls],
        rule services [unfolded urls])
qed

theorem discovery_query_and_empty_list_witness:
  \<open>agentsURL ''u1'' = ''/mattermost-ai/bridge/v1/agents?user_id=u1''
   \<and> agentsURL [] = ''/mattermost-ai/bridge/v1/agents''
   \<and> GetAgents (compactEnv :: unit Env) (scripted 200 ''{"agents":[]}'' None) ''u1''
       = Some (Inr [])
   \<and> GetServices (compactEnv :: unit Env) (scripted 200 ''{"services":[]}'' None) []
       = Some (Inr [])\<close>
proof -
  let ?env = "compactEnv :: unit Env"
  let ?agentsReq = "\<lparr>Method = ''GET'', Path = ''/mattermost-ai/bridge/v1/agents'',
      RawQuery = ''user_id=u1'', Header = Map.empty, RequestBody = None\<rparr>"
  let ?servicesReq = "\<lparr>Method = ''GET'', Path = ''/mattermost-ai/bridge/v1/services'',
      RawQuery = [], Header = Map.empty, RequestBody = None\<rparr>"
  have agentsReq: "http_NewRequest ?env ''GET''
      (''/mattermost-ai/bridge/v1/agents'' @ (if ''u1'' = [] then [] else ''?user_id='' @ ''u1''))
      None = Inr ?agentsReq"
    by (simp add: compact_NewRequest eval_request)
  have servicesReq: "http_NewRequest ?env ''GET''
      (''/mattermost-ai/bridge/v1/services'' @ (if [] = [] then [] else ''?user_id='' @ []))
      None = Inr ?servicesReq"
    by (simp add: compact_NewRequest eval_request)
  have agentsTrip: \<open>RoundTrip (httpClient (scripted 200 ''{"agents":[]}'' None)) ?agentsReq
      = Some (Inr \<lparr>StatusCode = 200, Body = \<lparr>Bytes = ''{"agents":[]}'', ReadErr = None\<rparr>\<rparr>)\<close>
    by (simp add: scripted_def NewClient_def)
  have servicesTrip: \<open>RoundTrip (httpClient (scripted 200 ''{"services":[]}'' None)) ?servicesReq
      = Some (Inr \<lparr>StatusCode = 200, Body = \<lparr>Bytes = ''{"services":[]}'', ReadErr = None\<rparr>\<rparr>)\<close>
    by (simp add: scripted_def NewClient_def)
  have agents: \<open>unmarshalAgentsResponse ?env ''{"agents":[]}'' = Inr \<lparr>Agents = []\<rparr>\<close>
    and services: \<open>unmarshalServicesResponse ?env ''{"services":[]}'' = Inr \<lparr>Services = []\<rparr>\<close>
    by (simp_all add: compactEnv_def compactAgentsResponse_def compactServicesResponse_def)
  show ?thesis
    using discovery_query_and_empty_list
      [where userID = "''u1''" and env = ?env and c = \<open>scripted 200 ''{"agents":[]}'' None\<close>
         and req = ?agentsReq
         and resp = \<open>\<lparr>StatusCode = 200, Body = \<lparr>Bytes = ''{"agents":[]}'', ReadErr = None\<rparr>\<rparr>\<close>
         and body = \<open>''{"agents":[]}''\<close> and agentsResp = "\<lparr>Agents = []\<rparr>"]
      discovery_query_and_empty_list
      [where userID = "[]" and env = ?env and c = \<open>scripted 200 ''{"services":[]}'' None\<close>
         and req = ?servicesReq
         and resp = \<open>\<lparr>StatusCode = 200, Body = \<lparr>Bytes = ''{"services":[]}'', ReadErr = None\<rparr>\<rparr>\<close>
         and body = \<open>''{"services":[]}''\<close> and servicesResp = "\<lparr>Services = []\<rparr>"]
      agentsReq servicesReq agentsTrip servicesTrip agents services
    by simp
qed

text \<open>
  C9 as stated fails for user ids with bytes that are special in a URL. With a line
  feed in the user id, \<^verbatim>\<open>http.NewRequest\<close> refuses the URL: \<open>GetAgents\<close> returns an
  error without issuing a request, even to a transport that would answer 200 with an
  empty list. With \<^verbatim>\<open>a#b\<close> as user id, the request that is issued carries the query
  \<^verbatim>\<open>user_id=a\<close>: the rest is cut off as a fragment.
\<close>

theorem unescaped_user_id_counterexample:
  \<open>GetAgents (compactEnv :: unit Env) (scripted 200 ''{"agents":[]}'' None) (''a'' @ LF # ''b'')
     = Some (Inl ''failed to create request: net/url: invalid control character in URL'')
   \<and> http_NewRequest (compactEnv :: unit Env) ''GET'' (agentsURL ''a#b'') None
     = Inr \<lparr>Method = ''GET'', Path = ''/mattermost-ai/bridge/v1/agents'',
            RawQuery = ''user_id=a'', Header = Map.empty, RequestBody = None\<rparr>\<close>
  by (simp add: GetAgents_def agentsURL_def compact_NewRequest eval_request LF_def)

end
